theory Spec2Isabelle
  imports Main
begin

section \<open>JavaScript values used by the services\<close>

text \<open>
  A JavaScript string is a sequence of UTF-16 code units; it is modelled as the list of
  its code units (natural numbers below 65536). \<open>js\<close> turns an ASCII literal of the
  source into such a list.
\<close>

type_synonym jsstring = "nat list"

definition js :: "string \<Rightarrow> jsstring" where
  "js s = map of_char s"

text \<open>
  An \<open>Error\<close> object, by its class name and its message, and a thrown value in
  general: either an \<open>Error\<close> instance, or any other value \<open>v\<close>, of which only
  \<open>String(v)\<close> is ever read.
\<close>

datatype js_error = JsError jsstring jsstring


definition new_Error :: "jsstring \<Rightarrow> js_error" where
  "new_Error message = JsError (js ''Error'') message"



section \<open>CacheService (src/server/services/cache.ts)\<close>

text \<open>
  \<^verbatim>\<open>const keyString = `${videoId}-${language}-${model}`; return `tldr:${keyString}`;\<close>
\<close>

definition generateCacheKey :: "jsstring \<Rightarrow> jsstring \<Rightarrow> jsstring \<Rightarrow> jsstring" where
  "generateCacheKey videoId language model =
     (let keyString = videoId @ js ''-'' @ language @ js ''-'' @ model
      in js ''tldr:'' @ keyString)"

section \<open>retryOperation (utils/retry, src/unnamed/part\_003)\<close>






section \<open>Character classes and regular expressions\<close>

text \<open>
  \<open>isWhiteSpace\<close> is the set that \<open>String.prototype.trim\<close> strips and the class
  \<open>\s\<close> matches (white space and line terminators).
\<close>

definition isWhiteSpace :: "nat \<Rightarrow> bool" where
  "isWhiteSpace c \<longleftrightarrow>
     (9 \<le> c \<and> c \<le> 13) \<or> c = 32 \<or> c = 160 \<or> c = 5760 \<or> (8192 \<le> c \<and> c \<le> 8202)
     \<or> c = 8232 \<or> c = 8233 \<or> c = 8239 \<or> c = 8287 \<or> c = 12288 \<or> c = 65279"

definition isDigit :: "nat \<Rightarrow> bool" where
  "isDigit c \<longleftrightarrow> 48 \<le> c \<and> c \<le> 57"

definition trim :: "jsstring \<Rightarrow> jsstring" where
  "trim s = rev (dropWhile isWhiteSpace (rev (dropWhile isWhiteSpace s)))"

text \<open>
  The regular expressions of the source are sequences of literals, greedily quantified
  character classes \<open>c{lo,hi}\<close> (\<open>hi = None\<close> for no upper bound), optional
  non-capturing groups \<open>(?:...)?\<close> and the end anchor \<open>$\<close>.
\<close>

datatype rx = Lit jsstring | Cls "nat \<Rightarrow> bool" nat "nat option" | Opt "rx list" | Eos

text \<open>\<open>first_down f lo n\<close> is the first result among \<open>f n, f (n - 1), ..., f lo\<close>.\<close>

primrec first_down :: "(nat \<Rightarrow> 'a option) \<Rightarrow> nat \<Rightarrow> nat \<Rightarrow> 'a option" where
  "first_down f lo 0 = (if lo = 0 then f 0 else None)"
| "first_down f lo (Suc n) =
     (if Suc n < lo then None
      else (case f (Suc n) of Some r \<Rightarrow> Some r | None \<Rightarrow> first_down f lo n))"

definition longest :: "(nat \<Rightarrow> bool) \<Rightarrow> nat option \<Rightarrow> jsstring \<Rightarrow> nat" where
  "longest p hi s =
     (let k = length (takeWhile p s) in case hi of None \<Rightarrow> k | Some h \<Rightarrow> min k h)"

text \<open>
  \<open>rx_match rs s\<close> matches the expression at the start of \<open>s\<close> as a backtracking
  matcher does: a quantified class first takes as many code units as it can and gives
  them back one by one while the rest fails; an optional group is tried before it is
  skipped. The result holds, for each item of \<open>rs\<close> in order, the substring it matched,
  so a capture group is read off at the index of its item.
\<close>

function rx_match :: "rx list \<Rightarrow> jsstring \<Rightarrow> jsstring list option" where
  "rx_match [] s = Some []"
| "rx_match (Lit l # rs) s =
     (if take (length l) s = l
      then map_option (\<lambda>ps. l # ps) (rx_match rs (drop (length l) s)) else None)"
| "rx_match (Cls p lo hi # rs) s =
     first_down (\<lambda>n. map_option (\<lambda>ps. take n s # ps) (rx_match rs (drop n s)))
       lo (longest p hi s)"
| "rx_match (Opt g # rs) s =
     (case rx_match (g @ rs) s of
        Some ps \<Rightarrow> Some (concat (take (length g) ps) # drop (length g) ps)
      | None \<Rightarrow> map_option (\<lambda>ps. [] # ps) (rx_match rs s))"
| "rx_match (Eos # rs) s =
     (if s = [] then map_option (\<lambda>ps. [] # ps) (rx_match rs s) else None)"
  by pat_completeness auto
termination
  by (relation "measure (\<lambda>(rs, s). size_list size rs)") (auto simp: size_list_append)

text \<open>
  The first match at or after the start of \<open>s\<close> (a regular expression without the
  \<open>g\<close> flag): the text before the match, the match, the text after it.
\<close>

fun rx_search :: "rx list \<Rightarrow> jsstring \<Rightarrow> (jsstring \<times> jsstring list \<times> jsstring) option" where
  "rx_search rs [] =
     (case rx_match rs [] of Some ps \<Rightarrow> Some ([], ps, []) | None \<Rightarrow> None)"
| "rx_search rs (c # s) =
     (case rx_match rs (c # s) of
        Some ps \<Rightarrow> Some ([], ps, drop (length (concat ps)) (c # s))
      | None \<Rightarrow> map_option (\<lambda>(before, ps, after). (c # before, ps, after)) (rx_search rs s))"

text \<open>
  All matches of an expression with the \<open>g\<close> flag, from left to right. \<open>k\<close> counts
  the code units still covered by the previous match, where no match may start; after an
  empty match the search moves on by one code unit.
\<close>

fun rx_all :: "rx list \<Rightarrow> nat \<Rightarrow> jsstring \<Rightarrow> jsstring list list" where
  "rx_all rs k [] =
     (if k = 0 then (case rx_match rs [] of Some ps \<Rightarrow> [ps] | None \<Rightarrow> []) else [])"
| "rx_all rs k (c # s) =
     (if 0 < k then rx_all rs (k - 1) s
      else (case rx_match rs (c # s) of
              Some ps \<Rightarrow> ps # rx_all rs (length (concat ps) - 1) s
            | None \<Rightarrow> rx_all rs 0 s))"

text \<open>
  \<open>s.replace(/.../g, f)\<close>: every match is replaced by what \<open>f\<close> gives for it, the
  text between the matches is kept.
\<close>

fun rx_replace_all :: "rx list \<Rightarrow> (jsstring list \<Rightarrow> jsstring) \<Rightarrow> nat \<Rightarrow> jsstring \<Rightarrow> jsstring" where
  "rx_replace_all rs f k [] =
     (if k = 0 then (case rx_match rs [] of Some ps \<Rightarrow> f ps | None \<Rightarrow> []) else [])"
| "rx_replace_all rs f k (c # s) =
     (if 0 < k then rx_replace_all rs f (k - 1) s
      else (case rx_match rs (c # s) of
              Some ps \<Rightarrow>
                (if concat ps = [] then f ps @ c # rx_replace_all rs f 0 s
                 else f ps @ rx_replace_all rs f (length (concat ps) - 1) s)
            | None \<Rightarrow> c # rx_replace_all rs f 0 s))"

section \<open>YouTubeService: the order of the transcript methods\<close>

text \<open>
  Segment times are JavaScript numbers (\<open>parseFloat\<close> results and their sums); their
  type is left open as \<open>'n\<close>.
\<close>

record 'n TranscriptSegment =
  seg_start :: 'n
  seg_end :: 'n
  seg_text :: jsstring

record 'n TranscriptResult =
  tr_text :: jsstring
  tr_segments :: "'n TranscriptSegment list"
  tr_reason :: "jsstring option"

text \<open>
  One transcript method (\<open>getTranscriptFromDataAPI\<close>, \<open>getTranscriptFromUnofficial\<close>,
  \<open>getTranscriptFromTimedText\<close>) as \<open>getTranscript\<close> sees it: for a video id and the
  preferred languages it throws an \<open>Error\<close> (every \<open>throw\<close> of the three methods and
  every rejection of \<open>fetch\<close> is one) or returns a result. What the network answers is
  not in the program, so the three methods are parameters.
\<close>

type_synonym 'n transcript_method = "jsstring \<Rightarrow> jsstring list \<Rightarrow> js_error + 'n TranscriptResult"

definition no_transcript :: "'n TranscriptResult" where
  "no_transcript =
     \<lparr>tr_text = [], tr_segments = [],
      tr_reason = Some (js ''no_transcript_available_all_methods_failed'')\<rparr>"

text \<open>
  src/server/services/youtube.ts, one block
  \<^verbatim>\<open>try { const result = await m(videoId, preferredLangs); if (result.text) return result; } catch (error) { console.warn(...) }\<close>:
  \<open>Some\<close> the result that \<open>getTranscript\<close> returns from this block, \<open>None\<close> when
  control passes to the next block.
\<close>

definition try_method ::
  "'n transcript_method \<Rightarrow> jsstring \<Rightarrow> jsstring list \<Rightarrow> 'n TranscriptResult option" where
  "try_method m videoId preferredLangs =
     (case m videoId preferredLangs of
        Inr result \<Rightarrow> if tr_text result \<noteq> [] then Some result else None
      | Inl error \<Rightarrow> None)"

text \<open>
  \<open>getTranscript\<close> of youtube.ts: the result, and the numbers of the methods it invoked,
  in order.
\<close>

definition getTranscript ::
  "'n transcript_method \<Rightarrow> 'n transcript_method \<Rightarrow> 'n transcript_method \<Rightarrow>
   jsstring \<Rightarrow> jsstring list \<Rightarrow> 'n TranscriptResult \<times> nat list" where
  "getTranscript getTranscriptFromDataAPI getTranscriptFromUnofficial getTranscriptFromTimedText
       videoId preferredLangs =
     (case try_method getTranscriptFromDataAPI videoId preferredLangs of
        Some result \<Rightarrow> (result, [1])
      | None \<Rightarrow>
     (case try_method getTranscriptFromUnofficial videoId preferredLangs of
        Some result \<Rightarrow> (result, [1, 2])
      | None \<Rightarrow>
     (case try_method getTranscriptFromTimedText videoId preferredLangs of
        Some result \<Rightarrow> (result, [1, 2, 3])
      | None \<Rightarrow> (no_transcript, [1, 2, 3]))))"

text \<open>
  The second \<open>YouTubeService\<close> (in src/server/services/analytics.ts) validates the id
  first: \<^verbatim>\<open>videoId.length === 11 && /^[a-zA-Z0-9_-]+$/.test(videoId)\<close>.
\<close>

definition isVideoIdChar :: "nat \<Rightarrow> bool" where
  "isVideoIdChar c \<longleftrightarrow>
     (97 \<le> c \<and> c \<le> 122) \<or> (65 \<le> c \<and> c \<le> 90) \<or> isDigit c \<or> c = 95 \<or> c = 45"

definition isValidVideoId :: "jsstring \<Rightarrow> bool" where
  "isValidVideoId videoId \<longleftrightarrow>
     length videoId = 11 \<and> rx_match [Cls isVideoIdChar 1 None, Eos] videoId \<noteq> None"

text \<open>
  The loop \<^verbatim>\<open>for (let i = 0; i < methods.length; i++)\<close> of the second service, from
  index \<open>i\<close> on: the result it returns (\<open>None\<close> when it runs to its end) and the
  numbers \<open>i + 1\<close> of the methods it invoked.
\<close>

fun try_methods ::
  "'n transcript_method list \<Rightarrow> nat \<Rightarrow> jsstring \<Rightarrow> jsstring list \<Rightarrow>
   'n TranscriptResult option \<times> nat list" where
  "try_methods [] i videoId preferredLangs = (None, [])"
| "try_methods (m # methods) i videoId preferredLangs =
     (case (case m videoId preferredLangs of
              Inr result \<Rightarrow>
                if tr_text result \<noteq> [] \<and> 0 < length (trim (tr_text result))
                then Some result else None
            | Inl error \<Rightarrow> None) of
        Some result \<Rightarrow> (Some result, [i + 1])
      | None \<Rightarrow>
          (let rest = try_methods methods (i + 1) videoId preferredLangs
           in (fst rest, (i + 1) # snd rest)))"

definition getTranscript_v2 ::
  "'n transcript_method \<Rightarrow> 'n transcript_method \<Rightarrow> 'n transcript_method \<Rightarrow>
   jsstring \<Rightarrow> jsstring list \<Rightarrow> (js_error + 'n TranscriptResult) \<times> nat list" where
  "getTranscript_v2 getTranscriptFromDataAPI getTranscriptFromUnofficial getTranscriptFromTimedText
       videoId preferredLangs =
     (if \<not> isValidVideoId videoId
      then (Inl (new_Error (js ''Invalid YouTube video ID: '' @ videoId)), [])
      else
        (let methods = [getTranscriptFromDataAPI, getTranscriptFromUnofficial,
                        getTranscriptFromTimedText];
             run = try_methods methods 0 videoId preferredLangs
         in case fst run of
              Some result \<Rightarrow> (Inr result, snd run)
            | None \<Rightarrow> (Inr no_transcript, snd run)))"

text \<open>A method attempt that makes \<open>getTranscript\<close> go on to the next method.\<close>

definition fails_or_empty :: "js_error + 'n TranscriptResult \<Rightarrow> bool" where
  "fails_or_empty r = (case r of Inl error \<Rightarrow> True | Inr result \<Rightarrow> tr_text result = [])"

definition fails_or_blank :: "js_error + 'n TranscriptResult \<Rightarrow> bool" where
  "fails_or_blank r = (case r of Inl error \<Rightarrow> True | Inr result \<Rightarrow> trim (tr_text result) = [])"

section \<open>Numbers: parseInt and Number.prototype.toString\<close>

text \<open>
  The numbers the services compute are results of \<open>parseInt\<close>: \<open>NaN\<close>, an infinity
  (\<open>Infinite True\<close> is \<open>-Infinity\<close>) or an integer-valued double. \<open>Finite i\<close> is the
  double of value \<open>i\<close>; \<open>-0\<close> is \<open>Finite 0\<close>, as the code only ever prints it and
  \<open>-0\<close> prints as \<open>0\<close>.
\<close>

datatype jsnum = NaN | Finite int | Infinite bool

fun bit_length :: "nat \<Rightarrow> nat" where
  "bit_length n = (if n = 0 then 0 else Suc (bit_length (n div 2)))"

declare bit_length.simps [simp del]

text \<open>
  The double nearest to a natural number (round to nearest, ties to even), \<open>None\<close> when
  the rounded value is beyond the largest double, which gives \<open>Infinity\<close>.
\<close>

definition to_double :: "nat \<Rightarrow> nat option" where
  "to_double m =
     (if m < 2 ^ 53 then Some m
      else (let e = bit_length m - 53;
                q = m div 2 ^ e;
                r = m mod 2 ^ e;
                q' = (if 2 ^ e < 2 * r \<or> (2 * r = 2 ^ e \<and> odd q) then q + 1 else q)
            in if 2 ^ 1024 \<le> q' * 2 ^ e then None else Some (q' * 2 ^ e)))"

definition digit_value :: "nat \<Rightarrow> nat option" where
  "digit_value c =
     (if 48 \<le> c \<and> c \<le> 57 then Some (c - 48)
      else if 97 \<le> c \<and> c \<le> 122 then Some (c - 87)
      else if 65 \<le> c \<and> c \<le> 90 then Some (c - 55)
      else None)"

definition isRadixDigit :: "nat \<Rightarrow> nat \<Rightarrow> bool" where
  "isRadixDigit R c = (case digit_value c of Some d \<Rightarrow> d < R | None \<Rightarrow> False)"

definition radix_value :: "nat \<Rightarrow> jsstring \<Rightarrow> nat" where
  "radix_value R Z =
     foldl (\<lambda>acc c. acc * R + (case digit_value c of Some d \<Rightarrow> d | None \<Rightarrow> 0)) 0 Z"

text \<open>
  \<open>parseInt(string, radix)\<close> after ECMAScript: leading white space is skipped, a sign is
  read, \<open>0x\<close> selects radix 16 when the radix is absent (\<open>None\<close>) or 16, the longest
  prefix of digits of the radix is the number, and no digit gives \<open>NaN\<close>. The integer
  read is rounded to a double.
\<close>

definition parseInt :: "jsstring \<Rightarrow> nat option \<Rightarrow> jsnum" where
  "parseInt string radix =
     (let S = dropWhile isWhiteSpace string;
          negative = (S \<noteq> [] \<and> hd S = 45);
          S1 = (if S \<noteq> [] \<and> (hd S = 43 \<or> hd S = 45) then tl S else S);
          R0 = (case radix of None \<Rightarrow> 0 | Some r \<Rightarrow> r)
      in if R0 \<noteq> 0 \<and> (R0 < 2 \<or> 36 < R0) then NaN
         else
           (let stripPrefix = (R0 = 0 \<or> R0 = 16);
                hasPrefix = (stripPrefix \<and> (take 2 S1 = js ''0x'' \<or> take 2 S1 = js ''0X''));
                R = (if hasPrefix then 16 else if R0 = 0 then 10 else R0);
                S2 = (if hasPrefix then drop 2 S1 else S1);
                Z = takeWhile (isRadixDigit R) S2
            in if Z = [] then NaN
               else (case to_double (radix_value R Z) of
                       None \<Rightarrow> Infinite negative
                     | Some m \<Rightarrow> Finite (if negative then - int m else int m))))"

fun decimal :: "nat \<Rightarrow> jsstring" where
  "decimal n = (if n < 10 then [48 + n] else decimal (n div 10) @ [48 + n mod 10])"

declare decimal.simps [simp del]

text \<open>
  The digits that \<open>Number.prototype.toString\<close> prints for a double \<open>m\<close> of \<open>d\<close> decimal
  digits: the number with the fewest significant digits (\<open>k\<close>, counted up from 1) whose
  nearest double is \<open>m\<close>, the closer one when two of that length qualify.
\<close>

function shortest_from :: "nat \<Rightarrow> nat \<Rightarrow> nat \<Rightarrow> nat" where
  "shortest_from m d k =
     (if d \<le> k then m
      else (let p = 10 ^ (d - k);
                lo = (m div p) * p;
                hi = lo + p
            in if to_double lo = Some m \<and> to_double hi = Some m
               then (if m - lo \<le> hi - m then lo else hi)
               else if to_double lo = Some m then lo
               else if to_double hi = Some m then hi
               else shortest_from m d (k + 1)))"
  by pat_completeness auto
termination
  by (relation "measure (\<lambda>(m, d, k). d - k)") auto

declare shortest_from.simps [simp del]

definition strip_zeros :: "jsstring \<Rightarrow> jsstring" where
  "strip_zeros ds = rev (dropWhile (\<lambda>c. c = 48) (rev ds))"

text \<open>
  A positive integer-valued double as \<open>toString\<close> prints it: below \<open>2^53\<close> every
  integer is a double and prints as itself; up to 21 digits are printed in full, longer
  numbers in exponent notation (\<open>1e+21\<close>, \<open>1.5e+300\<close>).
\<close>

definition magnitude_toString :: "nat \<Rightarrow> jsstring" where
  "magnitude_toString m =
     (if m < 2 ^ 53 then decimal m
      else (let D = decimal (shortest_from m (length (decimal m)) 1);
                n = length D
            in if n \<le> 21 then D
               else (let s = strip_zeros D
                     in (if length s = 1 then s else hd s # 46 # tl s)
                        @ js ''e+'' @ decimal (n - 1))))"

fun Number_toString :: "jsnum \<Rightarrow> jsstring" where
  "Number_toString NaN = js ''NaN''"
| "Number_toString (Infinite negative) = (if negative then js ''-Infinity'' else js ''Infinity'')"
| "Number_toString (Finite i) =
     (if i < 0 then 45 # magnitude_toString (nat (- i)) else magnitude_toString (nat i))"

text \<open>\<open>s.padStart(2, '0')\<close> and \<open>s.split(sep)\<close> for a separator of one code unit.\<close>

definition padStart2 :: "jsstring \<Rightarrow> jsstring" where
  "padStart2 s = (if 2 \<le> length s then s else replicate (2 - length s) 48 @ s)"

fun split_on :: "nat \<Rightarrow> jsstring \<Rightarrow> jsstring list" where
  "split_on sep [] = [[]]"
| "split_on sep (c # s) =
     (if c = sep then [] # split_on sep s
      else (case split_on sep s of p # ps \<Rightarrow> (c # p) # ps | [] \<Rightarrow> [[c]]))"

section \<open>YouTubeService: caption parsing\<close>

text \<open>
  \<open>decodeXMLEntities\<close> (the same in both services): seven \<open>replace\<close> calls in a row,
  each on the result of the one before. \<open>String.fromCharCode\<close> keeps the number modulo
  \<open>2^16\<close>.
\<close>

definition isHexDigit :: "nat \<Rightarrow> bool" where
  "isHexDigit c \<longleftrightarrow> isDigit c \<or> (65 \<le> c \<and> c \<le> 70) \<or> (97 \<le> c \<and> c \<le> 102)"

fun fromCharCode :: "jsnum \<Rightarrow> nat" where
  "fromCharCode NaN = 0"
| "fromCharCode (Infinite negative) = 0"
| "fromCharCode (Finite i) = nat (i mod 65536)"

definition replace_entity :: "jsstring \<Rightarrow> jsstring \<Rightarrow> jsstring \<Rightarrow> jsstring" where
  "replace_entity entity replacement s = rx_replace_all [Lit entity] (\<lambda>ps. replacement) 0 s"

definition replace_numeric :: "jsstring \<Rightarrow> (nat \<Rightarrow> bool) \<Rightarrow> nat \<Rightarrow> jsstring \<Rightarrow> jsstring" where
  "replace_numeric prefix isDigitOfRadix radix s =
     rx_replace_all [Lit prefix, Cls isDigitOfRadix 1 None, Lit (js '';'')]
       (\<lambda>ps. case ps of [p, digits, semicolon] \<Rightarrow> [fromCharCode (parseInt digits (Some radix))]
                | _ \<Rightarrow> [])
       0 s"

definition decodeXMLEntities :: "jsstring \<Rightarrow> jsstring" where
  "decodeXMLEntities text =
     replace_numeric (js ''&#'') isDigit 10
       (replace_numeric (js ''&#x'') isHexDigit 16
         (replace_entity (js ''&#39;'') [39]
           (replace_entity (js ''&quot;'') [34]
             (replace_entity (js ''&gt;'') (js ''>'')
               (replace_entity (js ''&lt;'') (js ''<'')
                 (replace_entity (js ''&amp;'') (js ''&'') text))))))"

text \<open>\<open>parts.join(sep)\<close>\<close>

fun join :: "jsstring \<Rightarrow> jsstring list \<Rightarrow> jsstring" where
  "join sep [] = []"
| "join sep [x] = x"
| "join sep (x # y # ys) = x @ sep @ join sep (y # ys)"

text \<open>
  youtube.ts: \<^verbatim>\<open>/<text[^>]*start="([^"]*)"[^>]*dur="([^"]*)"[^>]*>([^<]*)<\/text>/g\<close>, and
  the three expressions that read the attributes and the content of one match.
\<close>

definition text_rx :: "rx list" where
  "text_rx =
     [Lit (js ''<text''), Cls (\<lambda>c. c \<noteq> 62) 0 None,
      Lit (js ''start='' @ [34]), Cls (\<lambda>c. c \<noteq> 34) 0 None, Lit [34], Cls (\<lambda>c. c \<noteq> 62) 0 None,
      Lit (js ''dur='' @ [34]), Cls (\<lambda>c. c \<noteq> 34) 0 None, Lit [34], Cls (\<lambda>c. c \<noteq> 62) 0 None,
      Lit (js ''>''), Cls (\<lambda>c. c \<noteq> 60) 0 None, Lit (js ''</text>'')]"

definition start_rx :: "rx list" where
  "start_rx = [Lit (js ''start='' @ [34]), Cls (\<lambda>c. c \<noteq> 34) 0 None, Lit [34]]"

definition dur_rx :: "rx list" where
  "dur_rx = [Lit (js ''dur='' @ [34]), Cls (\<lambda>c. c \<noteq> 34) 0 None, Lit [34]]"

definition content_rx :: "rx list" where
  "content_rx = [Lit (js ''>''), Cls (\<lambda>c. c \<noteq> 60) 0 None, Lit (js ''<'')]"

text \<open>\<open>s.match(r)\<close> for an expression with one group: the group of the first match.\<close>

definition capture1 :: "rx list \<Rightarrow> jsstring \<Rightarrow> jsstring option" where
  "capture1 r s =
     (case rx_search r s of
        Some (before, [opening, captured, closing], after) \<Rightarrow> Some captured
      | _ \<Rightarrow> None)"

text \<open>
  \<open>parseFloat\<close> and the addition of two numbers are floating-point operations of
  the platform; they are parameters.
\<close>

definition segment_of_match ::
  "(jsstring \<Rightarrow> 'n) \<Rightarrow> ('n \<Rightarrow> 'n \<Rightarrow> 'n) \<Rightarrow> jsstring \<Rightarrow> 'n TranscriptSegment list" where
  "segment_of_match parseFloat add match =
     (case (capture1 start_rx match, capture1 dur_rx match, capture1 content_rx match) of
        (Some startText, Some durText, Some content) \<Rightarrow>
          (let start = parseFloat startText;
               duration = parseFloat durText
           in [\<lparr>seg_start = start, seg_end = add start duration,
                seg_text = decodeXMLEntities content\<rparr>])
      | _ \<Rightarrow> [])"

definition parseTranscriptXML ::
  "(jsstring \<Rightarrow> 'n) \<Rightarrow> ('n \<Rightarrow> 'n \<Rightarrow> 'n) \<Rightarrow> jsstring \<Rightarrow> 'n TranscriptResult" where
  "parseTranscriptXML parseFloat add xml =
     (let textMatches = map concat (rx_all text_rx 0 xml)
      in if textMatches = [] then \<lparr>tr_text = [], tr_segments = [], tr_reason = None\<rparr>
         else
           (let segments = concat (map (segment_of_match parseFloat add) textMatches);
                fullText = join (js '' '') (map seg_text segments)
            in \<lparr>tr_text = trim fullText, tr_segments = segments, tr_reason = None\<rparr>))"

text \<open>
  The second service (analytics.ts):
  \<^verbatim>\<open>/<text\s+start="([\d.]+)"\s+dur="([\d.]+)"(?:\s+[^>]*)?>([^<]*)<\/text>/g\<close>.
  A match has one piece per item of the expression, so the groups 1, 2 and 3 are the
  pieces 3, 7 and 11.
\<close>

definition textRegex :: "rx list" where
  "textRegex =
     [Lit (js ''<text''), Cls isWhiteSpace 1 None,
      Lit (js ''start='' @ [34]), Cls (\<lambda>c. isDigit c \<or> c = 46) 1 None, Lit [34],
      Cls isWhiteSpace 1 None,
      Lit (js ''dur='' @ [34]), Cls (\<lambda>c. isDigit c \<or> c = 46) 1 None, Lit [34],
      Opt [Cls isWhiteSpace 1 None, Cls (\<lambda>c. c \<noteq> 62) 0 None],
      Lit (js ''>''), Cls (\<lambda>c. c \<noteq> 60) 0 None, Lit (js ''</text>'')]"

definition parseTranscriptXML_v2 ::
  "(jsstring \<Rightarrow> 'n) \<Rightarrow> ('n \<Rightarrow> 'n \<Rightarrow> 'n) \<Rightarrow> jsstring \<Rightarrow> js_error + 'n TranscriptResult" where
  "parseTranscriptXML_v2 parseFloat add xml =
     (let segments =
            map (\<lambda>match.
                   (let start = parseFloat (match ! 3);
                        duration = parseFloat (match ! 7)
                    in \<lparr>seg_start = start, seg_end = add start duration,
                        seg_text = decodeXMLEntities (match ! 11)\<rparr>))
              (rx_all textRegex 0 xml)
      in if length segments = 0
         then Inl (new_Error (js ''No segments found in XML transcript''))
         else (let fullText = join (js '' '') (map seg_text segments)
               in Inr \<lparr>tr_text = trim fullText, tr_segments = segments, tr_reason = None\<rparr>))"

text \<open>A caption payload with one \<open>text\<close> element, to run the two parsers on.\<close>

definition sample_xml :: jsstring where
  "sample_xml = js ''<transcript><text start='' @ [34] @ js ''1.5'' @ [34] @ js '' dur=''
      @ [34] @ js ''2'' @ [34] @ js ''>Hi &amp;amp; bye</text></transcript>''"

section \<open>LLMService (server/services/llm, second part of src/server/services/api.ts)\<close>

definition normalizeTimestamp :: "jsstring \<Rightarrow> jsstring" where
  "normalizeTimestamp timestamp =
     (case split_on 58 timestamp of
        [p0, p1] \<Rightarrow>
          (let minutes = padStart2 (Number_toString (parseInt p0 None));
               seconds = padStart2 (Number_toString (parseInt p1 None))
           in minutes @ js '':'' @ seconds)
      | [p0, p1, p2] \<Rightarrow>
          (let hours = padStart2 (Number_toString (parseInt p0 None));
               minutes = padStart2 (Number_toString (parseInt p1 None));
               seconds = padStart2 (Number_toString (parseInt p2 None))
           in hours @ js '':'' @ minutes @ js '':'' @ seconds)
      | _ \<Rightarrow> timestamp)"

text \<open>
  A number that \<open>toString\<close> prints without exponent notation and that is not an
  infinity: \<open>NaN\<close>, or an integer of magnitude below \<open>10^21\<close>.
\<close>

definition prints_plain :: "jsnum \<Rightarrow> bool" where
  "prints_plain x = (case x of NaN \<Rightarrow> True | Finite i \<Rightarrow> \<bar>i\<bar> < 10 ^ 21 | Infinite negative \<Rightarrow> False)"

text \<open>One part of a timestamp as \<open>normalizeTimestamp\<close> rewrites it.\<close>

definition padded :: "jsstring \<Rightarrow> jsstring" where
  "padded part = padStart2 (Number_toString (parseInt part None))"

record Chapter =
  time :: jsstring
  title :: jsstring

record LLMResult =
  tldr :: jsstring
  chapters :: "Chapter list"

text \<open>
  \<open>toLowerCase\<close> on the letters of ASCII and Latin-1. The platform also lower-cases the
  cased letters of other scripts, which are left as they are here; the code only asks
  whether the lower-cased line includes \<open>tldr\<close>, \<open>resumen\<close>, \<open>chapters\<close> or
  \<open>cap\<iacute>tulos\<close>, and no letter outside Latin-1 lower-cases to a letter of these words.
\<close>

definition toLowerCase :: "jsstring \<Rightarrow> jsstring" where
  "toLowerCase s =
     map (\<lambda>c. if (65 \<le> c \<and> c \<le> 90) \<or> (192 \<le> c \<and> c \<le> 214) \<or> (216 \<le> c \<and> c \<le> 222)
               then c + 32 else c) s"

fun str_includes :: "jsstring \<Rightarrow> jsstring \<Rightarrow> bool" where
  "str_includes [] sub = (sub = [])"
| "str_includes (c # s) sub = (take (length sub) (c # s) = sub \<or> str_includes s sub)"

text \<open>\<open>s.replace(pattern, replacement)\<close> for a string pattern: the first occurrence.\<close>

fun replace_first :: "jsstring \<Rightarrow> jsstring \<Rightarrow> jsstring \<Rightarrow> jsstring" where
  "replace_first pattern replacement [] = (if pattern = [] then replacement else [])"
| "replace_first pattern replacement (c # s) =
     (if take (length pattern) (c # s) = pattern
      then replacement @ drop (length pattern) (c # s)
      else c # replace_first pattern replacement s)"

text \<open>\<^verbatim>\<open>/(\d{1,2}:\d{2}(?::\d{2})?)/\<close> and \<^verbatim>\<open>/^[\s\-:]+/\<close>\<close>

definition timestamp_rx :: "rx list" where
  "timestamp_rx =
     [Cls isDigit 1 (Some 2), Lit (js '':''), Cls isDigit 2 (Some 2),
      Opt [Lit (js '':''), Cls isDigit 2 (Some 2)]]"

definition leading_rx :: "rx list" where
  "leading_rx = [Cls (\<lambda>c. isWhiteSpace c \<or> c = 45 \<or> c = 58) 1 None]"

text \<open>\<open>title.replace(/^[\s\-:]+/, '')\<close>: the expression is anchored at the start.\<close>

definition strip_leading :: "jsstring \<Rightarrow> jsstring" where
  "strip_leading s =
     (case rx_match leading_rx s of Some ps \<Rightarrow> drop (length (concat ps)) s | None \<Rightarrow> s)"

text \<open>The variables of the loop of \<open>parseUnstructuredResponse\<close>.\<close>

record scan_state =
  st_tldr :: jsstring
  st_chapters :: "Chapter list"
  foundTldr :: bool
  foundChapters :: bool

definition capitulos :: jsstring where
  "capitulos = js ''cap'' @ [237] @ js ''tulos''"

text \<open>One iteration of \<^verbatim>\<open>for (const line of lines)\<close>.\<close>

definition scan_line :: "jsstring \<Rightarrow> scan_state \<Rightarrow> scan_state" where
  "scan_line line st =
     (if str_includes (toLowerCase line) (js ''tldr'') \<or> str_includes (toLowerCase line) (js ''resumen'')
      then (case dropWhile (\<lambda>c. c \<noteq> 58) line of
              [] \<Rightarrow> st\<lparr>foundTldr := True\<rparr>
            | colon # rest \<Rightarrow> st\<lparr>foundTldr := True, st_tldr := trim rest\<rparr>)
      else if str_includes (toLowerCase line) (js ''chapters'') \<or> str_includes (toLowerCase line) capitulos
      then st\<lparr>foundChapters := True\<rparr>
      else
        (let st1 =
               (case rx_search timestamp_rx line of
                  Some (before, ps, after) \<Rightarrow>
                    if foundChapters st then
                      (let time = concat ps;
                           title = trim (strip_leading (replace_first (concat ps) [] line))
                       in if title \<noteq> []
                          then st\<lparr>st_chapters := st_chapters st
                                   @ [\<lparr>time = normalizeTimestamp time, title = title\<rparr>]\<rparr>
                          else st)
                    else st
                | None \<Rightarrow> st)
         in if \<not> foundTldr st1 \<and> \<not> foundChapters st1 \<and> 50 < length line
            then st1\<lparr>st_tldr := line, foundTldr := True\<rparr> else st1))"

definition response_lines :: "jsstring \<Rightarrow> jsstring list" where
  "response_lines responseText = filter (\<lambda>line. line \<noteq> []) (map trim (split_on 10 responseText))"

definition scan_lines :: "jsstring list \<Rightarrow> scan_state \<Rightarrow> scan_state" where
  "scan_lines lines st = foldl (\<lambda>st line. scan_line line st) st lines"

definition parseUnstructuredResponse :: "jsstring \<Rightarrow> LLMResult" where
  "parseUnstructuredResponse responseText =
     (let st = scan_lines (response_lines responseText)
                 \<lparr>st_tldr = [], st_chapters = [], foundTldr = False, foundChapters = False\<rparr>
      in \<lparr>tldr = (if st_tldr st \<noteq> [] then st_tldr st else js ''No summary available''),
          chapters = st_chapters st\<rparr>)"

text \<open>
  A value \<open>JSON.parse\<close> returns. Of a number the code reads only whether it is truthy,
  so \<open>JNumber\<close> holds just that (true for a number other than zero); an object is the
  list of its entries, one for each key.
\<close>

datatype json =
  JNull | JBool bool | JNumber bool | JString jsstring | JArray "json list"
  | JObject "(jsstring \<times> json) list"

text \<open>
  \<open>v.name\<close> for the names the code reads (\<open>tldr\<close>, \<open>chapters\<close>, \<open>time\<close>, \<open>title\<close>):
  \<open>None\<close> is the \<open>TypeError\<close> of reading a property of \<open>null\<close>, \<open>Some None\<close> is
  \<open>undefined\<close>.
\<close>

fun get_property :: "json \<Rightarrow> jsstring \<Rightarrow> json option option" where
  "get_property JNull name = None"
| "get_property (JObject entries) name = Some (map_of entries name)"
| "get_property v name = Some None"

fun truthy :: "json option \<Rightarrow> bool" where
  "truthy None = False"
| "truthy (Some JNull) = False"
| "truthy (Some (JBool b)) = b"
| "truthy (Some (JNumber nonzero)) = nonzero"
| "truthy (Some (JString s)) = (s \<noteq> [])"
| "truthy (Some (JArray vs)) = True"
| "truthy (Some (JObject entries)) = True"

text \<open>
  The callbacks of \<^verbatim>\<open>.filter((ch) => ch.time && ch.title)\<close> and
  \<^verbatim>\<open>.map((ch) => ({ time: this.normalizeTimestamp(ch.time), title: ch.title.trim() }))\<close>;
  \<open>None\<close> is a \<open>TypeError\<close> (\<open>ch\<close> is \<open>null\<close>, or \<open>split\<close> or \<open>trim\<close> is called
  on a value that is not a string).
\<close>

definition chapter_kept :: "json \<Rightarrow> bool option" where
  "chapter_kept ch =
     (case get_property ch (js ''time'') of
        None \<Rightarrow> None
      | Some t \<Rightarrow>
          if truthy t then map_option truthy (get_property ch (js ''title'')) else Some False)"

definition chapter_of :: "json \<Rightarrow> Chapter option" where
  "chapter_of ch =
     (case (get_property ch (js ''time''), get_property ch (js ''title'')) of
        (Some (Some (JString t)), Some (Some (JString ti))) \<Rightarrow>
          Some \<lparr>time = normalizeTimestamp t, title = trim ti\<rparr>
      | _ \<Rightarrow> None)"

fun map_all :: "('a \<Rightarrow> 'b option) \<Rightarrow> 'a list \<Rightarrow> 'b list option" where
  "map_all f [] = Some []"
| "map_all f (x # xs) =
     (case f x of None \<Rightarrow> None
      | Some y \<Rightarrow> (case map_all f xs of None \<Rightarrow> None | Some ys \<Rightarrow> Some (y # ys)))"

text \<open>
  The \<open>try\<close> block of \<open>parseStructuredResponse\<close> after \<open>JSON.parse\<close>; \<open>None\<close> when it
  throws (\<open>Invalid response structure\<close> or a \<open>TypeError\<close>).
\<close>

definition structured :: "json \<Rightarrow> LLMResult option" where
  "structured parsed =
     (case get_property parsed (js ''tldr'') of
        None \<Rightarrow> None
      | Some t \<Rightarrow>
          if \<not> truthy t then None
          else (case get_property parsed (js ''chapters'') of
                  Some (Some (JArray cs)) \<Rightarrow>
                    (case map_all chapter_kept cs of
                       None \<Rightarrow> None
                     | Some keep \<Rightarrow>
                         (case map_all chapter_of (map fst (filter snd (zip cs keep))) of
                            None \<Rightarrow> None
                          | Some chs \<Rightarrow>
                              (case t of
                                 Some (JString s) \<Rightarrow> Some \<lparr>tldr = trim s, chapters = chs\<rparr>
                               | _ \<Rightarrow> None)))
                | _ \<Rightarrow> None))"

definition parseStructuredResponse :: "(jsstring \<Rightarrow> json option) \<Rightarrow> jsstring \<Rightarrow> LLMResult" where
  "parseStructuredResponse JSON_parse responseText =
     (case JSON_parse responseText of
        None \<Rightarrow> parseUnstructuredResponse responseText
      | Some parsed \<Rightarrow>
          (case structured parsed of
             Some result \<Rightarrow> result
           | None \<Rightarrow> parseUnstructuredResponse responseText))"

text \<open>
  The two providers. A chat request carries the model and the two messages; the
  constants \<open>temperature: 0.7\<close> and \<open>max_tokens: 1000\<close> of both requests are left out.
  The OpenAI client resolves to \<open>choices[0].message.content\<close> (\<open>None\<close> for \<open>null\<close>) or
  throws; \<open>fetch\<close> to the Groq endpoint resolves to a response, of which the code reads
  \<open>ok\<close>, \<open>status\<close> and, through \<open>json()\<close>, \<open>choices?.[0]?.message?.content\<close>.
\<close>

record ChatRequest =
  req_model :: jsstring
  req_system :: jsstring
  req_user :: jsstring
  req_json_object :: bool

record GroqResponse =
  resp_ok :: bool
  resp_status :: nat
  resp_content :: "js_error + jsstring option"

text \<open>
  What \<open>LLMService\<close> takes from outside the program: the two providers, the configured
  Groq key, the platform's \<open>JSON.parse\<close> (\<open>None\<close> for a \<open>SyntaxError\<close>), and the prompt
  texts of \<open>getSystemPrompt\<close> and \<open>buildPrompt\<close>.
\<close>

record LLMEnv =
  openai_create :: "ChatRequest \<Rightarrow> js_error + jsstring option"
  groq_fetch :: "jsstring \<Rightarrow> ChatRequest \<Rightarrow> js_error + GroqResponse"
  groqApiKey :: jsstring
  JSON_parse :: "jsstring \<Rightarrow> json option"
  getSystemPrompt :: "jsstring \<Rightarrow> jsstring"
  buildPrompt :: "jsstring \<Rightarrow> jsstring \<Rightarrow> jsstring"

definition openai_request :: "LLMEnv \<Rightarrow> jsstring \<Rightarrow> jsstring \<Rightarrow> jsstring \<Rightarrow> ChatRequest" where
  "openai_request env transcriptText language model =
     \<lparr>req_model = (if model = js ''gpt-5'' then js ''gpt-5'' else model),
      req_system = getSystemPrompt env language,
      req_user = buildPrompt env transcriptText language,
      req_json_object = True\<rparr>"

definition groq_request :: "LLMEnv \<Rightarrow> jsstring \<Rightarrow> jsstring \<Rightarrow> ChatRequest" where
  "groq_request env transcriptText language =
     \<lparr>req_model = js ''llama3-8b-8192'',
      req_system = getSystemPrompt env language,
      req_user = buildPrompt env transcriptText language,
      req_json_object = False\<rparr>"

text \<open>
  A call of a provider is an effect of the program. The functions of \<open>LLMService\<close> take
  the list of the provider calls made so far and return it with their result; the list
  grows only where the code invokes a provider: \<open>chat_completions_create\<close> is
  \<^verbatim>\<open>await this.openai.chat.completions.create({...})\<close> and \<open>fetch_groq\<close> is
  \<^verbatim>\<open>await fetch('https://api.groq.com/openai/v1/chat/completions', {...})\<close>, with the
  key of the \<open>Authorization\<close> header and the request of the body.
\<close>

datatype provider_call = OpenAI_call ChatRequest | Groq_call jsstring ChatRequest

definition chat_completions_create ::
  "LLMEnv \<Rightarrow> ChatRequest \<Rightarrow> provider_call list
   \<Rightarrow> (js_error + jsstring option) \<times> provider_call list" where
  "chat_completions_create env request calls =
     (openai_create env request, calls @ [OpenAI_call request])"

definition fetch_groq ::
  "LLMEnv \<Rightarrow> jsstring \<Rightarrow> ChatRequest \<Rightarrow> provider_call list
   \<Rightarrow> (js_error + GroqResponse) \<times> provider_call list" where
  "fetch_groq env key request calls =
     (groq_fetch env key request, calls @ [Groq_call key request])"

definition callOpenAI ::
  "LLMEnv \<Rightarrow> jsstring \<Rightarrow> jsstring \<Rightarrow> jsstring \<Rightarrow> provider_call list
   \<Rightarrow> (js_error + LLMResult) \<times> provider_call list" where
  "callOpenAI env transcriptText language model calls =
     (case chat_completions_create env (openai_request env transcriptText language model) calls of
        (Inl error, calls1) \<Rightarrow> (Inl error, calls1)
      | (Inr content, calls1) \<Rightarrow>
          (case content of
             None \<Rightarrow> (Inl (new_Error (js ''Empty response from OpenAI'')), calls1)
           | Some result \<Rightarrow>
               if result = []
               then (Inl (new_Error (js ''Empty response from OpenAI'')), calls1)
               else (Inr (parseStructuredResponse (JSON_parse env) result), calls1)))"

definition callGroq ::
  "LLMEnv \<Rightarrow> jsstring \<Rightarrow> jsstring \<Rightarrow> provider_call list
   \<Rightarrow> (js_error + LLMResult) \<times> provider_call list" where
  "callGroq env transcriptText language calls =
     (case fetch_groq env (groqApiKey env) (groq_request env transcriptText language) calls of
        (Inl error, calls1) \<Rightarrow> (Inl error, calls1)
      | (Inr response, calls1) \<Rightarrow>
          if \<not> resp_ok response
          then (Inl (new_Error (js ''Groq API error: '' @ decimal (resp_status response))), calls1)
          else (case resp_content response of
                  Inl error \<Rightarrow> (Inl error, calls1)
                | Inr content \<Rightarrow>
                    (case content of
                       None \<Rightarrow> (Inl (new_Error (js ''Empty response from Groq'')), calls1)
                     | Some result \<Rightarrow>
                         if result = []
                         then (Inl (new_Error (js ''Empty response from Groq'')), calls1)
                         else (Inr (parseStructuredResponse (JSON_parse env) result), calls1))))"

text \<open>
  \<open>generateTLDRAndChapters\<close>: what it returns or throws, and the provider calls made
  when it is done.
\<close>

definition generateTLDRAndChapters ::
  "LLMEnv \<Rightarrow> jsstring \<Rightarrow> jsstring \<Rightarrow> jsstring \<Rightarrow> provider_call list
   \<Rightarrow> (js_error + LLMResult) \<times> provider_call list" where
  "generateTLDRAndChapters env transcriptText language model calls =
     (let maxLength = 8000;
          truncatedText = (if maxLength < length transcriptText
                           then take maxLength transcriptText @ js ''...''
                           else transcriptText)
      in case callOpenAI env truncatedText language model calls of
           (Inr result, calls1) \<Rightarrow> (Inr result, calls1)
         | (Inl error, calls1) \<Rightarrow>
             if groqApiKey env \<noteq> []
             then (case callGroq env truncatedText language calls1 of
                     (Inr result, calls2) \<Rightarrow> (Inr result, calls2)
                   | (Inl groqError, calls2) \<Rightarrow>
                       (Inl (new_Error (js ''All LLM providers failed'')), calls2))
             else (Inl (new_Error (js ''All LLM providers failed'')), calls1))"

definition truncated :: "jsstring \<Rightarrow> jsstring" where
  "truncated transcriptText =
     (if 8000 < length transcriptText then take 8000 transcriptText @ js ''...''
      else transcriptText)"

text \<open>
  The answers of a provider that make its call throw. \<open>no_content\<close> is \<^verbatim>\<open>!result\<close> for
  a content that is \<open>null\<close>, \<open>undefined\<close> or a string: it holds of a missing content and
  of the empty string. The call of the primary provider throws when the client throws
  or the content is missing or empty; the call of Groq throws when \<open>fetch\<close> throws, the
  response is not \<open>ok\<close>, \<open>json()\<close> throws, or the content is missing or empty.
\<close>

definition no_content :: "jsstring option \<Rightarrow> bool" where
  "no_content content \<longleftrightarrow> (case content of None \<Rightarrow> True | Some result \<Rightarrow> result = [])"

definition openai_failed :: "js_error + jsstring option \<Rightarrow> bool" where
  "openai_failed answer \<longleftrightarrow>
     (case answer of Inl error \<Rightarrow> True | Inr content \<Rightarrow> no_content content)"

definition groq_failed :: "js_error + GroqResponse \<Rightarrow> bool" where
  "groq_failed answer \<longleftrightarrow>
     (case answer of
        Inl error \<Rightarrow> True
      | Inr response \<Rightarrow>
          (if resp_ok response
           then (case resp_content response of
                   Inl error \<Rightarrow> True
                 | Inr content \<Rightarrow> no_content content)
           else True))"

text \<open>
  The two kinds of marker line of \<open>scan_line\<close>: a line with a summary keyword, and a
  line that starts the chapter list (it has a chapter keyword and no summary keyword,
  as the summary test comes first).
\<close>

definition summary_marker :: "jsstring \<Rightarrow> bool" where
  "summary_marker line \<longleftrightarrow>
     str_includes (toLowerCase line) (js ''tldr'') \<or> str_includes (toLowerCase line) (js ''resumen'')"

definition chapter_marker :: "jsstring \<Rightarrow> bool" where
  "chapter_marker line \<longleftrightarrow>
     \<not> summary_marker line \<and>
     (str_includes (toLowerCase line) (js ''chapters'') \<or> str_includes (toLowerCase line) capitulos)"

section \<open>extractVideoId\<close>

text \<open>
  What the code reads of the object \<open>new URL(url)\<close>: the host name, the path and the
  query parameters (names and values, in order; \<open>searchParams.get\<close> gives the first
  value of a name).
\<close>

record URL =
  hostname :: jsstring
  pathname :: jsstring
  searchParams :: "(jsstring \<times> jsstring) list"

text \<open>
  \<open>extractVideoId\<close> (the same function in client/src/lib/api and in the routes,
  src/unnamed/part\_002). The URL parser is the platform's, so it is a parameter:
  \<open>new_URL url\<close> is \<open>None\<close> when the constructor throws, which the \<open>catch\<close> turns
  into \<open>null\<close>.
\<close>

definition extractVideoId :: "(jsstring \<Rightarrow> URL option) \<Rightarrow> jsstring \<Rightarrow> jsstring option" where
  "extractVideoId new_URL url =
     (case new_URL url of
        None \<Rightarrow> None
      | Some urlObj \<Rightarrow>
          if hostname urlObj = js ''youtu.be'' then Some (drop 1 (pathname urlObj))
          else if str_includes (hostname urlObj) (js ''youtube.com'')
          then map_of (searchParams urlObj) (js ''v'')
          else None)"

definition isValidYouTubeUrl :: "(jsstring \<Rightarrow> URL option) \<Rightarrow> jsstring \<Rightarrow> bool" where
  "isValidYouTubeUrl new_URL url \<longleftrightarrow> extractVideoId new_URL url \<noteq> None"

text \<open>
  A parser for plain URLs, to run the code on concrete inputs: \<open>http://\<close> or
  \<open>https://\<close>, a host of dot-separated labels of lower-case letters and digits whose
  last label starts with a letter, a path of letters, digits, \<open>_\<close>, \<open>-\<close> and \<open>/\<close>, and
  a query of such names and values joined by \<open>=\<close> and \<open>&\<close>. On these the platform's
  parser has nothing to normalise or decode and returns the parts as written (the path
  \<open>/\<close> when there is none). Every other string is rejected here, also where the
  platform accepts it, so \<open>URL_plain\<close> stands for the platform on plain URLs and on
  strings without a scheme only.
\<close>

definition isLowerAlnum :: "nat \<Rightarrow> bool" where
  "isLowerAlnum c \<longleftrightarrow> (97 \<le> c \<and> c \<le> 122) \<or> isDigit c"

definition plain_host :: "jsstring \<Rightarrow> bool" where
  "plain_host host \<longleftrightarrow>
     list_all (\<lambda>label. label \<noteq> [] \<and> list_all isLowerAlnum label) (split_on 46 host)
     \<and> (case last (split_on 46 host) of c # cs \<Rightarrow> 97 \<le> c \<and> c \<le> 122 | [] \<Rightarrow> False)"

definition query_pairs :: "jsstring \<Rightarrow> (jsstring \<times> jsstring) list" where
  "query_pairs query =
     map (\<lambda>pair. (takeWhile (\<lambda>c. c \<noteq> 61) pair, drop 1 (dropWhile (\<lambda>c. c \<noteq> 61) pair)))
       (filter (\<lambda>pair. pair \<noteq> []) (split_on 38 query))"

definition URL_plain :: "jsstring \<Rightarrow> URL option" where
  "URL_plain input =
     (case (if take 8 input = js ''https://'' then Some (drop 8 input)
            else if take 7 input = js ''http://'' then Some (drop 7 input) else None) of
        None \<Rightarrow> None
      | Some rest \<Rightarrow>
          (let host = takeWhile (\<lambda>c. c \<noteq> 47 \<and> c \<noteq> 63) rest;
               after = dropWhile (\<lambda>c. c \<noteq> 47 \<and> c \<noteq> 63) rest;
               path = takeWhile (\<lambda>c. c \<noteq> 63) after;
               query = drop 1 (dropWhile (\<lambda>c. c \<noteq> 63) after)
           in if plain_host host \<and> list_all (\<lambda>c. isVideoIdChar c \<or> c = 47) path
                 \<and> list_all (\<lambda>c. isVideoIdChar c \<or> c = 61 \<or> c = 38) query
              then Some \<lparr>hostname = host,
                         pathname = (if path = [] then js ''/'' else path),
                         searchParams = query_pairs query\<rparr>
              else None))"

section \<open>Properties of the cache key\<close>

lemma js_append: "js (a @ b) = js a @ js b"
  by (simp add: js_def)

text \<open>
  Keys differ for distinct triples whose identifiers and languages are free of the
  separator \<open>-\<close> (code unit 45).
\<close>

lemma first_separator_unique:
  "x \<notin> set a \<Longrightarrow> x \<notin> set a' \<Longrightarrow> a @ x # b = a' @ x # b' \<Longrightarrow> a = a' \<and> b = b'"
proof (induction a arbitrary: a')
  case Nil
  then show ?case by (cases a') auto
next
  case (Cons c a)
  then show ?case by (cases a') auto
qed

lemma generateCacheKey_injective:
  assumes v: "45 \<notin> set videoId" "45 \<notin> set videoId'"
    and l: "45 \<notin> set language" "45 \<notin> set language'"
    and "generateCacheKey videoId language model = generateCacheKey videoId' language' model'"
  shows "videoId = videoId' \<and> language = language' \<and> model = model'"
proof -
  from assms(5) have eq: "videoId @ 45 # (language @ 45 # model)
      = videoId' @ 45 # (language' @ 45 # model')"
    by (simp add: generateCacheKey_def js_def)
  from first_separator_unique[OF v eq]
  have same: "videoId = videoId'" and rest: "language @ 45 # model = language' @ 45 # model'"
    by simp_all
  from first_separator_unique[OF l rest] same show ?thesis by simp
qed

text \<open>
  C7, failing input: the triples
  (\<open>dQw4w9WgXcQ\<close>, \<open>en-US\<close>, \<open>gpt-5\<close>) and (\<open>dQw4w9WgXcQ\<close>, \<open>en\<close>, \<open>US-gpt-5\<close>)
  differ, and \<open>generateCacheKey\<close> gives both the key \<open>tldr:dQw4w9WgXcQ-en-US-gpt-5\<close>:
  the key is not collision-free, because a component may hold the separator.
\<close>

theorem generateCacheKey_collision:
  "generateCacheKey (js ''dQw4w9WgXcQ'') (js ''en-US'') (js ''gpt-5'')
     = generateCacheKey (js ''dQw4w9WgXcQ'') (js ''en'') (js ''US-gpt-5'')
   \<and> (js ''dQw4w9WgXcQ'', js ''en-US'', js ''gpt-5'')
       \<noteq> (js ''dQw4w9WgXcQ'', js ''en'', js ''US-gpt-5'')
   \<and> generateCacheKey (js ''dQw4w9WgXcQ'') (js ''en-US'') (js ''gpt-5'')
       = js ''tldr:dQw4w9WgXcQ-en-US-gpt-5''"
  by (simp add: generateCacheKey_def js_def)

section \<open>Properties of retryOperation\<close>






section \<open>Properties of getTranscript\<close>

lemma trim_Nil: "trim [] = []"
  by (simp add: trim_def)

lemma try_methods_skip:
  "fails_or_blank (m videoId langs) \<Longrightarrow>
   try_methods (m # methods) i videoId langs =
     (fst (try_methods methods (i + 1) videoId langs),
      (i + 1) # snd (try_methods methods (i + 1) videoId langs))"
  by (cases "m videoId langs") (auto simp: fails_or_blank_def Let_def)

lemma try_methods_hit:
  "m videoId langs = Inr result \<Longrightarrow> trim (tr_text result) \<noteq> [] \<Longrightarrow>
   try_methods (m # methods) i videoId langs = (Some result, [i + 1])"
  by (auto simp: trim_Nil)

lemma try_method_skip:
  "fails_or_empty (m videoId langs) \<Longrightarrow> try_method m videoId langs = None"
  by (cases "m videoId langs") (auto simp: fails_or_empty_def try_method_def)

lemma try_method_hit:
  "m videoId langs = Inr result \<Longrightarrow> tr_text result \<noteq> [] \<Longrightarrow>
   try_method m videoId langs = Some result"
  by (simp add: try_method_def)

text \<open>
  C1, as the code has it. Both services try the three methods in the order 1, 2, 3 and
  return the result of the first method that returns usable text; a method that throws
  or returns unusable text is skipped; when method 1 is skipped and method 2 returns
  usable text, that result is returned and method 3 is not invoked (the equation holds
  whatever method 3 is); when all three are skipped the call returns the empty result
  with the reason \<open>no_transcript_available_all_methods_failed\<close>. In youtube.ts this holds
  for every id, usable meaning non-empty. In the second service usable means non-empty
  after trimming, all of it holds for the ids that \<open>isValidVideoId\<close> accepts, and for any
  other id the call throws before it invokes a method.
\<close>

theorem getTranscript_order:
  fixes m1 m2 m3 :: "'n transcript_method"
  shows
  "(m1 v l = Inr r1 \<and> tr_text r1 \<noteq> [] \<longrightarrow> getTranscript m1 m2 m3 v l = (r1, [1]))
   \<and> (fails_or_empty (m1 v l) \<and> m2 v l = Inr r2 \<and> tr_text r2 \<noteq> []
        \<longrightarrow> getTranscript m1 m2 m3 v l = (r2, [1, 2]))
   \<and> (fails_or_empty (m1 v l) \<and> fails_or_empty (m2 v l) \<and> m3 v l = Inr r3 \<and> tr_text r3 \<noteq> []
        \<longrightarrow> getTranscript m1 m2 m3 v l = (r3, [1, 2, 3]))
   \<and> (fails_or_empty (m1 v l) \<and> fails_or_empty (m2 v l) \<and> fails_or_empty (m3 v l)
        \<longrightarrow> getTranscript m1 m2 m3 v l = (no_transcript, [1, 2, 3]))
   \<and> (\<not> isValidVideoId v
        \<longrightarrow> getTranscript_v2 m1 m2 m3 v l
            = (Inl (JsError (js ''Error'') (js ''Invalid YouTube video ID: '' @ v)), []))
   \<and> (isValidVideoId v \<and> m1 v l = Inr r1 \<and> trim (tr_text r1) \<noteq> []
        \<longrightarrow> getTranscript_v2 m1 m2 m3 v l = (Inr r1, [1]))
   \<and> (isValidVideoId v \<and> fails_or_blank (m1 v l) \<and> m2 v l = Inr r2 \<and> trim (tr_text r2) \<noteq> []
        \<longrightarrow> getTranscript_v2 m1 m2 m3 v l = (Inr r2, [1, 2]))
   \<and> (isValidVideoId v \<and> fails_or_blank (m1 v l) \<and> fails_or_blank (m2 v l)
        \<and> m3 v l = Inr r3 \<and> trim (tr_text r3) \<noteq> []
        \<longrightarrow> getTranscript_v2 m1 m2 m3 v l = (Inr r3, [1, 2, 3]))
   \<and> (isValidVideoId v \<and> fails_or_blank (m1 v l) \<and> fails_or_blank (m2 v l)
        \<and> fails_or_blank (m3 v l)
        \<longrightarrow> getTranscript_v2 m1 m2 m3 v l = (Inr no_transcript, [1, 2, 3]))"
proof (intro conjI impI)
  assume "m1 v l = Inr r1 \<and> tr_text r1 \<noteq> []"
  then show "getTranscript m1 m2 m3 v l = (r1, [1])"
    by (simp add: getTranscript_def try_method_hit)
next
  assume "fails_or_empty (m1 v l) \<and> m2 v l = Inr r2 \<and> tr_text r2 \<noteq> []"
  then show "getTranscript m1 m2 m3 v l = (r2, [1, 2])"
    by (simp add: getTranscript_def try_method_hit try_method_skip)
next
  assume "fails_or_empty (m1 v l) \<and> fails_or_empty (m2 v l) \<and> m3 v l = Inr r3 \<and> tr_text r3 \<noteq> []"
  then show "getTranscript m1 m2 m3 v l = (r3, [1, 2, 3])"
    by (simp add: getTranscript_def try_method_hit try_method_skip)
next
  assume "fails_or_empty (m1 v l) \<and> fails_or_empty (m2 v l) \<and> fails_or_empty (m3 v l)"
  then show "getTranscript m1 m2 m3 v l = (no_transcript, [1, 2, 3])"
    by (simp add: getTranscript_def try_method_skip)
next
  assume "\<not> isValidVideoId v"
  then show "getTranscript_v2 m1 m2 m3 v l
      = (Inl (JsError (js ''Error'') (js ''Invalid YouTube video ID: '' @ v)), [])"
    by (simp add: getTranscript_v2_def new_Error_def)
next
  assume "isValidVideoId v \<and> m1 v l = Inr r1 \<and> trim (tr_text r1) \<noteq> []"
  then show "getTranscript_v2 m1 m2 m3 v l = (Inr r1, [1])"
    by (simp add: getTranscript_v2_def try_methods_hit Let_def del: try_methods.simps(2))
next
  assume "isValidVideoId v \<and> fails_or_blank (m1 v l) \<and> m2 v l = Inr r2 \<and> trim (tr_text r2) \<noteq> []"
  then show "getTranscript_v2 m1 m2 m3 v l = (Inr r2, [1, 2])"
    by (simp add: getTranscript_v2_def try_methods_hit try_methods_skip Let_def del: try_methods.simps(2))
next
  assume "isValidVideoId v \<and> fails_or_blank (m1 v l) \<and> fails_or_blank (m2 v l)
        \<and> m3 v l = Inr r3 \<and> trim (tr_text r3) \<noteq> []"
  then show "getTranscript_v2 m1 m2 m3 v l = (Inr r3, [1, 2, 3])"
    by (simp add: getTranscript_v2_def try_methods_hit try_methods_skip Let_def del: try_methods.simps(2))
next
  assume "isValidVideoId v \<and> fails_or_blank (m1 v l) \<and> fails_or_blank (m2 v l)
        \<and> fails_or_blank (m3 v l)"
  then show "getTranscript_v2 m1 m2 m3 v l = (Inr no_transcript, [1, 2, 3])"
    by (simp add: getTranscript_v2_def try_methods_skip Let_def del: try_methods.simps(2))
qed

lemmas rx_eval =
  js_def longest_def isDigit_def isWhiteSpace_def isVideoIdChar_def trim_def

lemmas num_eval =
  parseInt_def to_double_def radix_value_def isRadixDigit_def digit_value_def padStart2_def
  magnitude_toString_def strip_zeros_def Let_def decimal.simps bit_length.simps
  shortest_from.simps

theorem getTranscript_order_witness:
  "getTranscript
       (\<lambda>v l. Inl (JsError (js ''Error'') (js ''No captions available'')))
       (\<lambda>v l. Inr \<lparr>tr_text = js ''hello world'', tr_segments = [], tr_reason = None\<rparr>)
       (\<lambda>v l. Inl (JsError (js ''Error'') (js ''Could not extract player response'')))
       (js ''dQw4w9WgXcQ'') [js ''en'']
     = (\<lparr>tr_text = js ''hello world'', tr_segments = ([] :: nat TranscriptSegment list),
         tr_reason = None\<rparr>, [1, 2])
   \<and> getTranscript_v2
       (\<lambda>v l. Inl (JsError (js ''Error'') (js ''No captions available'')))
       (\<lambda>v l. Inr \<lparr>tr_text = js ''hello world'', tr_segments = [], tr_reason = None\<rparr>)
       (\<lambda>v l. Inl (JsError (js ''Error'') (js ''Could not extract player response'')))
       (js ''dQw4w9WgXcQ'') [js ''en'']
     = (Inr \<lparr>tr_text = js ''hello world'', tr_segments = ([] :: nat TranscriptSegment list),
             tr_reason = None\<rparr>, [1, 2])
   \<and> getTranscript
       (\<lambda>v l. Inl (JsError (js ''Error'') (js ''No captions available'')))
       (\<lambda>v l. Inr \<lparr>tr_text = [], tr_segments = [], tr_reason = None\<rparr>)
       (\<lambda>v l. Inl (JsError (js ''Error'') (js ''Could not extract player response'')))
       (js ''dQw4w9WgXcQ'') [js ''en'']
     = (no_transcript :: nat TranscriptResult, [1, 2, 3])
   \<and> getTranscript_v2
       (\<lambda>v l. Inl (JsError (js ''Error'') (js ''No captions available'')))
       (\<lambda>v l. Inr \<lparr>tr_text = [], tr_segments = [], tr_reason = None\<rparr>)
       (\<lambda>v l. Inl (JsError (js ''Error'') (js ''Could not extract player response'')))
       (js ''dQw4w9WgXcQ'') [js ''en'']
     = (Inr (no_transcript :: nat TranscriptResult), [1, 2, 3])"
  using getTranscript_order
    [where ?'n = nat
       and ?m1.0 = "\<lambda>v l. Inl (JsError (js ''Error'') (js ''No captions available''))"
       and ?m2.0 = "\<lambda>v l. Inr \<lparr>tr_text = js ''hello world'', tr_segments = [], tr_reason = None\<rparr>"
       and ?m3.0 = "\<lambda>v l. Inl (JsError (js ''Error'') (js ''Could not extract player response''))"
       and v = "js ''dQw4w9WgXcQ''" and l = "[js ''en'']"
       and ?r2.0 = "\<lparr>tr_text = js ''hello world'', tr_segments = [], tr_reason = None\<rparr>"]
    getTranscript_order
    [where ?'n = nat
       and ?m1.0 = "\<lambda>v l. Inl (JsError (js ''Error'') (js ''No captions available''))"
       and ?m2.0 = "\<lambda>v l. Inr \<lparr>tr_text = [], tr_segments = [], tr_reason = None\<rparr>"
       and ?m3.0 = "\<lambda>v l. Inl (JsError (js ''Error'') (js ''Could not extract player response''))"
       and v = "js ''dQw4w9WgXcQ''" and l = "[js ''en'']"]
  by (simp add: fails_or_empty_def fails_or_blank_def isValidVideoId_def rx_eval)

text \<open>
  C1 as stated fails in the second service for an id that \<open>isValidVideoId\<close> rejects: with
  three failing methods and the id \<open>abc\<close> the call throws
  \<open>Error("Invalid YouTube video ID: abc")\<close> instead of returning the empty result, and
  invokes no method.
\<close>

theorem getTranscript_v2_invalid_id_throws:
  "getTranscript_v2
       (\<lambda>v l. Inl (JsError (js ''Error'') (js ''No captions available'')))
       (\<lambda>v l. Inl (JsError (js ''Error'') (js ''All unofficial endpoints failed'')))
       (\<lambda>v l. Inl (JsError (js ''Error'') (js ''Could not extract player response'')))
       (js ''abc'') [js ''en'']
     = (Inl (JsError (js ''Error'') (js ''Invalid YouTube video ID: abc''))
          :: js_error + nat TranscriptResult, [])"
  by (simp add: getTranscript_v2_def new_Error_def isValidVideoId_def rx_eval)

section \<open>Properties of the summarization engine\<close>

lemma scan_line_foundTldr: "foundTldr st \<Longrightarrow> foundTldr (scan_line line st)"
  by (auto simp: scan_line_def Let_def split: list.splits option.splits)

lemma scan_line_foundChapters: "foundChapters st \<Longrightarrow> foundChapters (scan_line line st)"
  by (auto simp: scan_line_def Let_def split: list.splits option.splits)

lemma scan_line_marker: "chapter_marker line \<Longrightarrow> foundChapters (scan_line line st)"
  by (auto simp: scan_line_def chapter_marker_def summary_marker_def)

lemma scan_line_tldr_kept:
  "\<not> summary_marker line \<Longrightarrow> foundTldr st \<Longrightarrow> st_tldr (scan_line line st) = st_tldr st"
  by (auto simp: scan_line_def summary_marker_def Let_def split: list.splits option.splits)

lemma scan_line_chapters_grow:
  "set (st_chapters st) \<subseteq> set (st_chapters (scan_line line st))"
  by (auto simp: scan_line_def Let_def split: list.splits option.splits)

lemma scan_lines_Nil: "scan_lines [] st = st"
  by (simp add: scan_lines_def)

lemma scan_lines_Cons: "scan_lines (line # lines) st = scan_lines lines (scan_line line st)"
  by (simp add: scan_lines_def)

lemma scan_lines_append: "scan_lines (xs @ ys) st = scan_lines ys (scan_lines xs st)"
  by (simp add: scan_lines_def)

lemma scan_lines_foundTldr: "foundTldr st \<Longrightarrow> foundTldr (scan_lines lines st)"
  by (induction lines arbitrary: st) (simp_all add: scan_lines_Nil scan_lines_Cons scan_line_foundTldr)

lemma scan_lines_foundChapters: "foundChapters st \<Longrightarrow> foundChapters (scan_lines lines st)"
  by (induction lines arbitrary: st)
     (simp_all add: scan_lines_Nil scan_lines_Cons scan_line_foundChapters)

lemma scan_lines_marker:
  "list_ex chapter_marker lines \<Longrightarrow> foundChapters (scan_lines lines st)"
  by (induction lines arbitrary: st)
     (auto simp: scan_lines_Nil scan_lines_Cons scan_line_marker scan_lines_foundChapters)

lemma scan_lines_tldr_kept:
  "list_all (\<lambda>line. \<not> summary_marker line) lines \<Longrightarrow> foundTldr st \<Longrightarrow>
   st_tldr (scan_lines lines st) = st_tldr st"
  by (induction lines arbitrary: st)
     (simp_all add: scan_lines_Nil scan_lines_Cons scan_line_tldr_kept scan_line_foundTldr)

lemma scan_lines_chapters_grow:
  "set (st_chapters st) \<subseteq> set (st_chapters (scan_lines lines st))"
proof (induction lines arbitrary: st)
  case Nil
  show ?case by (simp add: scan_lines_Nil)
next
  case (Cons line lines)
  show ?case
    using scan_line_chapters_grow[of st line] Cons.IH[of "scan_line line st"]
    by (auto simp: scan_lines_Cons)
qed

lemma resumen_is_marker: "summary_marker (js ''Resumen: Video about X'')"
  by (simp add: summary_marker_def toLowerCase_def js_def)

lemma scan_line_resumen:
  "scan_line (js ''Resumen: Video about X'') st
     = st\<lparr>foundTldr := True, st_tldr := js ''Video about X''\<rparr>"
proof -
  have m: "str_includes (toLowerCase (js ''Resumen: Video about X'')) (js ''resumen'')"
    by (simp add: toLowerCase_def js_def)
  have d: "dropWhile (\<lambda>c. c \<noteq> 58) (js ''Resumen: Video about X'') = 58 # js '' Video about X''"
    by (simp add: js_def)
  have t: "trim (js '' Video about X'') = js ''Video about X''"
    by (simp add: rx_eval)
  show ?thesis
    unfolding scan_line_def using m by (simp add: d t)
qed

lemma timestamp_line_plain:
  "\<not> summary_marker (js ''02:30 Main topic'')"
  "\<not> str_includes (toLowerCase (js ''02:30 Main topic'')) (js ''chapters'')"
  "\<not> str_includes (toLowerCase (js ''02:30 Main topic'')) capitulos"
  by (simp_all add: summary_marker_def toLowerCase_def capitulos_def js_def)

lemma normalize_0230: "normalizeTimestamp (js ''02:30'') = js ''02:30''"
  by (simp add: normalizeTimestamp_def rx_eval num_eval)

lemma scan_line_timestamp:
  assumes "foundChapters st"
  shows "scan_line (js ''02:30 Main topic'') st
     = st\<lparr>st_chapters := st_chapters st @ [\<lparr>time = js ''02:30'', title = js ''Main topic''\<rparr>]\<rparr>"
proof -
  have s: "rx_search timestamp_rx (js ''02:30 Main topic'')
      = Some ([], [js ''02'', js '':'', js ''30'', []], js '' Main topic'')"
    by (simp add: timestamp_rx_def rx_eval)
  have c: "concat [js ''02'', js '':'', js ''30'', []] = js ''02:30''"
    by (simp add: js_def)
  have r: "replace_first (js ''02:30'') [] (js ''02:30 Main topic'') = js '' Main topic''"
    by (simp add: js_def)
  have t: "trim (strip_leading (js '' Main topic'')) = js ''Main topic''"
    by (simp add: leading_rx_def strip_leading_def rx_eval)
  have ne: "js ''Main topic'' \<noteq> []"
    by (simp add: js_def)
  show ?thesis
    unfolding scan_line_def using timestamp_line_plain assms
    by (simp add: summary_marker_def s c r t ne normalize_0230 del: concat.simps)
qed


lemma parseStructuredResponse_malformed:
  "parse responseText = None \<Longrightarrow>
   parseStructuredResponse parse responseText = parseUnstructuredResponse responseText"
  by (simp add: parseStructuredResponse_def)

text \<open>
  C4, as the code has it. Let the non-empty trimmed lines of the response hold the line
  \<open>Resumen: Video about X\<close> and later the line \<open>02:30 Main topic\<close>. If a line that starts
  the chapter list (\<open>chapters\<close> or \<open>cap\<iacute>tulos\<close>, in any case) comes before the
  timestamp line, and no line after the \<open>Resumen\<close> line has a summary keyword, then
  \<open>parseUnstructuredResponse\<close> gives the \<open>tldr\<close> \<open>Video about X\<close> and a chapter list that
  holds the chapter \<open>{time: "02:30", title: "Main topic"}\<close>.
\<close>

theorem parseUnstructuredResponse_marked:
  assumes lines: "response_lines responseText
             = pre @ [js ''Resumen: Video about X''] @ mid @ [js ''02:30 Main topic''] @ post"
      and marker: "list_ex chapter_marker (pre @ mid)"
      and later: "list_all (\<lambda>line. \<not> summary_marker line) (mid @ post)"
  shows "tldr (parseUnstructuredResponse responseText) = js ''Video about X''
       \<and> \<lparr>time = js ''02:30'', title = js ''Main topic''\<rparr>
           \<in> set (chapters (parseUnstructuredResponse responseText))"
proof -
  define s0 :: scan_state
    where "s0 = \<lparr>st_tldr = [], st_chapters = [], foundTldr = False, foundChapters = False\<rparr>"
  define s1 where "s1 = scan_lines pre s0"
  define s2 where "s2 = scan_line (js ''Resumen: Video about X'') s1"
  define s3 where "s3 = scan_lines mid s2"
  define s4 where "s4 = scan_line (js ''02:30 Main topic'') s3"
  define s5 where "s5 = scan_lines post s4"
  have final: "scan_lines (response_lines responseText) s0 = s5"
    by (simp add: lines scan_lines_append scan_lines_Cons scan_lines_Nil
          s1_def s2_def s3_def s4_def s5_def)
  have s2: "st_tldr s2 = js ''Video about X''" "foundTldr s2"
    by (simp_all add: s2_def scan_line_resumen)
  have mid_plain: "list_all (\<lambda>line. \<not> summary_marker line) mid"
    and post_plain: "list_all (\<lambda>line. \<not> summary_marker line) post"
    using later by simp_all
  have s3: "st_tldr s3 = js ''Video about X''" "foundTldr s3"
    using s2 mid_plain by (simp_all add: s3_def scan_lines_tldr_kept scan_lines_foundTldr)
  have "foundChapters s3"
  proof (cases "list_ex chapter_marker pre")
    case True
    then have "foundChapters s1" by (simp add: s1_def scan_lines_marker)
    then show ?thesis
      by (simp add: s3_def s2_def scan_line_foundChapters scan_lines_foundChapters)
  next
    case False
    then have "list_ex chapter_marker mid" using marker by simp
    then show ?thesis by (simp add: s3_def scan_lines_marker)
  qed
  then have s4: "s4 = s3\<lparr>st_chapters := st_chapters s3
        @ [\<lparr>time = js ''02:30'', title = js ''Main topic''\<rparr>]\<rparr>"
    by (simp add: s4_def scan_line_timestamp)
  have s4': "st_tldr s4 = js ''Video about X''" "foundTldr s4"
    "\<lparr>time = js ''02:30'', title = js ''Main topic''\<rparr> \<in> set (st_chapters s4)"
    using s3 by (simp_all add: s4)
  have s5: "st_tldr s5 = js ''Video about X''"
    using s4' post_plain by (simp add: s5_def scan_lines_tldr_kept)
  have s5c: "\<lparr>time = js ''02:30'', title = js ''Main topic''\<rparr> \<in> set (st_chapters s5)"
    using s4'(3) scan_lines_chapters_grow[of s4 post] by (auto simp: s5_def)
  have ne: "js ''Video about X'' \<noteq> []" by (simp add: js_def)
  show ?thesis
    unfolding parseUnstructuredResponse_def Let_def final[unfolded s0_def]
    using s5 s5c ne by simp
qed

lemma response_lines_marked: "response_lines (js ''Resumen: Video about X'' @ [10] @ js ''Chapters:'' @ [10] @ js ''02:30 Main topic'')
   = [js ''Resumen: Video about X'', js ''Chapters:'', js ''02:30 Main topic'']"
  by (simp add: response_lines_def rx_eval)

theorem parseUnstructuredResponse_marked_witness:
  "tldr (parseUnstructuredResponse
      (js ''Resumen: Video about X'' @ [10] @ js ''Chapters:'' @ [10] @ js ''02:30 Main topic''))
     = js ''Video about X''
   \<and> \<lparr>time = js ''02:30'', title = js ''Main topic''\<rparr>
       \<in> set (chapters (parseUnstructuredResponse
      (js ''Resumen: Video about X'' @ [10] @ js ''Chapters:'' @ [10] @ js ''02:30 Main topic'')))"
proof -
  have m: "list_ex chapter_marker ([] @ [js ''Chapters:''])"
    by (simp add: chapter_marker_def summary_marker_def toLowerCase_def capitulos_def js_def)
  have l: "list_all (\<lambda>line. \<not> summary_marker line) ([js ''Chapters:''] @ [])"
    by (simp add: summary_marker_def toLowerCase_def js_def)
  have e: "response_lines (js ''Resumen: Video about X'' @ [10] @ js ''Chapters:'' @ [10] @ js ''02:30 Main topic'')
     = [] @ [js ''Resumen: Video about X''] @ [js ''Chapters:''] @ [js ''02:30 Main topic''] @ []"
    using response_lines_marked by simp
  show ?thesis
    by (rule parseUnstructuredResponse_marked[OF e m l])
qed

text \<open>
  C4 as stated fails without a chapter marker: for the response of the two lines
  \<open>Resumen: Video about X\<close> and \<open>02:30 Main topic\<close> the parser returns no chapter, as
  timestamp lines only count after a line that starts the chapter list
  (\<^verbatim>\<open>if (timeMatch && foundChapters)\<close>).
\<close>

theorem parseUnstructuredResponse_no_marker:
  "parseUnstructuredResponse (js ''Resumen: Video about X'' @ [10] @ js ''02:30 Main topic'')
     = \<lparr>tldr = js ''Video about X'', chapters = []\<rparr>"
proof -
  have l: "response_lines (js ''Resumen: Video about X'' @ [10] @ js ''02:30 Main topic'')
     = [js ''Resumen: Video about X'', js ''02:30 Main topic'']"
    by (simp add: response_lines_def rx_eval)
  have s: "rx_search timestamp_rx (js ''02:30 Main topic'')
      = Some ([], [js ''02'', js '':'', js ''30'', []], js '' Main topic'')"
    by (simp add: timestamp_rx_def rx_eval)
  have t: "scan_line (js ''02:30 Main topic'')
        \<lparr>st_tldr = js ''Video about X'', st_chapters = [], foundTldr = True, foundChapters = False\<rparr>
      = \<lparr>st_tldr = js ''Video about X'', st_chapters = [], foundTldr = True, foundChapters = False\<rparr>"
    unfolding scan_line_def using timestamp_line_plain
    by (simp add: summary_marker_def s del: concat.simps)
  have ne: "js ''Video about X'' \<noteq> []" by (simp add: js_def)
  show ?thesis
    unfolding parseUnstructuredResponse_def Let_def l
    by (simp add: scan_lines_Cons scan_lines_Nil scan_line_resumen t ne)
qed

subsection \<open>The provider calls of generateTLDRAndChapters\<close>

lemma openai_failed_iff:
  "openai_failed answer \<longleftrightarrow> (\<nexists>content. answer = Inr (Some content) \<and> content \<noteq> [])"
  by (auto simp: openai_failed_def no_content_def split: sum.splits option.splits)

lemma groq_failed_iff:
  "groq_failed answer \<longleftrightarrow>
     (\<nexists>response content. answer = Inr response \<and> resp_ok response
         \<and> resp_content response = Inr (Some content) \<and> content \<noteq> [])"
  by (auto simp: groq_failed_def no_content_def split: sum.splits option.splits)

lemma callOpenAI_answer:
  assumes "openai_create env (openai_request env text language model) = Inr (Some content)"
    and "content \<noteq> []"
  shows "callOpenAI env text language model calls
     = (Inr (parseStructuredResponse (JSON_parse env) content),
        calls @ [OpenAI_call (openai_request env text language model)])"
  using assms by (simp add: callOpenAI_def chat_completions_create_def)

lemma callOpenAI_throws:
  assumes "openai_failed (openai_create env (openai_request env text language model))"
  shows "\<exists>error. callOpenAI env text language model calls
     = (Inl error, calls @ [OpenAI_call (openai_request env text language model)])"
  using assms
  by (auto simp: callOpenAI_def chat_completions_create_def openai_failed_def no_content_def
           split: sum.splits option.splits)

lemma callGroq_answer:
  assumes "groq_fetch env (groqApiKey env) (groq_request env text language) = Inr response"
    and "resp_ok response" and "resp_content response = Inr (Some content)" and "content \<noteq> []"
  shows "callGroq env text language calls
     = (Inr (parseStructuredResponse (JSON_parse env) content),
        calls @ [Groq_call (groqApiKey env) (groq_request env text language)])"
  using assms by (simp add: callGroq_def fetch_groq_def)

lemma callGroq_throws:
  assumes "groq_failed (groq_fetch env (groqApiKey env) (groq_request env text language))"
  shows "\<exists>error. callGroq env text language calls
     = (Inl error, calls @ [Groq_call (groqApiKey env) (groq_request env text language)])"
  using assms
  by (auto simp: callGroq_def fetch_groq_def groq_failed_def no_content_def
           split: sum.splits option.splits if_splits)

lemma generateTLDRAndChapters_unfold:
  "generateTLDRAndChapters env transcriptText language model calls =
     (case callOpenAI env (truncated transcriptText) language model calls of
        (Inr result, calls1) \<Rightarrow> (Inr result, calls1)
      | (Inl error, calls1) \<Rightarrow>
          if groqApiKey env \<noteq> []
          then (case callGroq env (truncated transcriptText) language calls1 of
                  (Inr result, calls2) \<Rightarrow> (Inr result, calls2)
                | (Inl groqError, calls2) \<Rightarrow>
                    (Inl (new_Error (js ''All LLM providers failed'')), calls2))
          else (Inl (new_Error (js ''All LLM providers failed'')), calls1))"
  unfolding generateTLDRAndChapters_def truncated_def Let_def by simp

text \<open>
  C3, as the code has it. Let the list \<open>calls\<close> hold the provider calls made before
  \<open>generateTLDRAndChapters\<close> runs on a transcript, a language and a requested model. The
  request to the primary provider carries the requested model and the transcript cut to
  8000 code units; the request to Groq carries the model \<open>llama3-8b-8192\<close> and is built
  without the requested model. Then:

  \<^item> if the primary provider answers that request with a content that is not empty, the
    engine returns \<open>parseStructuredResponse\<close> of that content, and the request to the
    primary provider is the one call it has added. This holds whatever the content is:
    a content that is not JSON is parsed by the heuristic parser and returned, and Groq
    is not called;
  \<^item> if the primary provider throws or answers with no content or an empty one, and a
    Groq key is configured, the engine has added the request to the primary provider
    and then the request to Groq, sent with that key; it returns
    \<open>parseStructuredResponse\<close> of the content of Groq when Groq answers \<open>ok\<close> with a
    content that is not empty, and throws \<open>Error("All LLM providers failed")\<close> when the
    call of Groq fails too;
  \<^item> if the primary provider throws or answers with no content or an empty one, and the
    Groq key is empty, the engine throws \<open>Error("All LLM providers failed")\<close> and the
    request to the primary provider is the one call it has added.
\<close>

theorem generateTLDRAndChapters_fallback:
  "req_model (openai_request env (truncated transcriptText) language model) = model
   \<and> req_model (groq_request env (truncated transcriptText) language) = js ''llama3-8b-8192''
   \<and> (openai_create env (openai_request env (truncated transcriptText) language model) = Inr (Some content) \<and> content \<noteq> []
        \<longrightarrow> generateTLDRAndChapters env transcriptText language model calls
            = (Inr (parseStructuredResponse (JSON_parse env) content),
               calls @ [OpenAI_call (openai_request env (truncated transcriptText) language model)]))
   \<and> (openai_failed (openai_create env (openai_request env (truncated transcriptText) language model))
        \<and> groqApiKey env \<noteq> []
        \<and> groq_fetch env (groqApiKey env) (groq_request env (truncated transcriptText) language) = Inr response
        \<and> resp_ok response \<and> resp_content response = Inr (Some groqContent) \<and> groqContent \<noteq> []
        \<longrightarrow> generateTLDRAndChapters env transcriptText language model calls
            = (Inr (parseStructuredResponse (JSON_parse env) groqContent),
               calls @ [OpenAI_call (openai_request env (truncated transcriptText) language model),
                        Groq_call (groqApiKey env) (groq_request env (truncated transcriptText) language)]))
   \<and> (openai_failed (openai_create env (openai_request env (truncated transcriptText) language model))
        \<and> groqApiKey env \<noteq> []
        \<and> groq_failed (groq_fetch env (groqApiKey env) (groq_request env (truncated transcriptText) language))
        \<longrightarrow> generateTLDRAndChapters env transcriptText language model calls
            = (Inl (JsError (js ''Error'') (js ''All LLM providers failed'')),
               calls @ [OpenAI_call (openai_request env (truncated transcriptText) language model),
                        Groq_call (groqApiKey env) (groq_request env (truncated transcriptText) language)]))
   \<and> (openai_failed (openai_create env (openai_request env (truncated transcriptText) language model))
        \<and> groqApiKey env = []
        \<longrightarrow> generateTLDRAndChapters env transcriptText language model calls
            = (Inl (JsError (js ''Error'') (js ''All LLM providers failed'')),
               calls @ [OpenAI_call (openai_request env (truncated transcriptText) language model)]))"
proof -
  let ?t = "truncated transcriptText"
  let ?r1 = "openai_request env ?t language model"
  let ?r2 = "groq_request env ?t language"
  let ?g = "generateTLDRAndChapters env transcriptText language model calls"
  have m1: "req_model ?r1 = model"
    by (simp add: openai_request_def)
  have m2: "req_model ?r2 = js ''llama3-8b-8192''"
    by (simp add: groq_request_def)
  have answered: "?g = (Inr (parseStructuredResponse (JSON_parse env) content),
                        calls @ [OpenAI_call ?r1])"
    if "openai_create env ?r1 = Inr (Some content)" "content \<noteq> []"
    unfolding generateTLDRAndChapters_unfold
    by (simp add: callOpenAI_answer[OF that])
  have fallback: "?g = (Inr (parseStructuredResponse (JSON_parse env) groqContent),
                        calls @ [OpenAI_call ?r1, Groq_call (groqApiKey env) ?r2])"
    if f: "openai_failed (openai_create env ?r1)" and k: "groqApiKey env \<noteq> []"
      and g: "groq_fetch env (groqApiKey env) ?r2 = Inr response" "resp_ok response"
        "resp_content response = Inr (Some groqContent)" "groqContent \<noteq> []"
  proof -
    obtain error where c: "callOpenAI env ?t language model calls
        = (Inl error, calls @ [OpenAI_call ?r1])"
      using callOpenAI_throws[OF f] by blast
    show ?thesis
      unfolding generateTLDRAndChapters_unfold
      by (simp add: c k callGroq_answer[OF g])
  qed
  have both_failed: "?g = (Inl (JsError (js ''Error'') (js ''All LLM providers failed'')),
                        calls @ [OpenAI_call ?r1, Groq_call (groqApiKey env) ?r2])"
    if f: "openai_failed (openai_create env ?r1)" and k: "groqApiKey env \<noteq> []"
      and g: "groq_failed (groq_fetch env (groqApiKey env) ?r2)"
  proof -
    obtain error where c: "callOpenAI env ?t language model calls
        = (Inl error, calls @ [OpenAI_call ?r1])"
      using callOpenAI_throws[OF f] by blast
    obtain groqError where d: "callGroq env ?t language (calls @ [OpenAI_call ?r1])
        = (Inl groqError, (calls @ [OpenAI_call ?r1]) @ [Groq_call (groqApiKey env) ?r2])"
      using callGroq_throws[OF g] by blast
    show ?thesis
      unfolding generateTLDRAndChapters_unfold
      by (simp add: c k d new_Error_def)
  qed
  have no_key: "?g = (Inl (JsError (js ''Error'') (js ''All LLM providers failed'')),
                        calls @ [OpenAI_call ?r1])"
    if f: "openai_failed (openai_create env ?r1)" and k: "groqApiKey env = []"
  proof -
    obtain error where c: "callOpenAI env ?t language model calls
        = (Inl error, calls @ [OpenAI_call ?r1])"
      using callOpenAI_throws[OF f] by blast
    show ?thesis
      unfolding generateTLDRAndChapters_unfold
      by (simp add: c k new_Error_def)
  qed
  show ?thesis
    using m1 m2 answered fallback both_failed no_key by blast
qed

theorem generateTLDRAndChapters_fallback_witness:
  "generateTLDRAndChapters
         \<lparr>openai_create = (\<lambda>r. Inr (Some (js ''Resumen: hi''))),
          groq_fetch = (\<lambda>k r. Inl (JsError (js ''TypeError'') (js ''fetch failed''))),
          groqApiKey = js ''gsk'', JSON_parse = (\<lambda>s. None),
          getSystemPrompt = (\<lambda>l. js ''system''), buildPrompt = (\<lambda>t l. t)\<rparr>
         (js ''some transcript'') (js ''es'') (js ''gpt-4o'') []
     = (Inr (parseUnstructuredResponse (js ''Resumen: hi'')),
        [OpenAI_call \<lparr>req_model = js ''gpt-4o'', req_system = js ''system'',
                      req_user = js ''some transcript'', req_json_object = True\<rparr>])
   \<and> generateTLDRAndChapters
         \<lparr>openai_create = (\<lambda>r. Inl (JsError (js ''APIError'') (js ''429''))),
          groq_fetch = (\<lambda>k r. Inr \<lparr>resp_ok = True, resp_status = 200,
                                    resp_content = Inr (Some (js ''Resumen: hi''))\<rparr>),
          groqApiKey = js ''gsk'', JSON_parse = (\<lambda>s. None),
          getSystemPrompt = (\<lambda>l. js ''system''), buildPrompt = (\<lambda>t l. t)\<rparr>
         (js ''some transcript'') (js ''es'') (js ''gpt-4o'') []
     = (Inr (parseUnstructuredResponse (js ''Resumen: hi'')),
        [OpenAI_call \<lparr>req_model = js ''gpt-4o'', req_system = js ''system'',
                      req_user = js ''some transcript'', req_json_object = True\<rparr>,
         Groq_call (js ''gsk'') \<lparr>req_model = js ''llama3-8b-8192'', req_system = js ''system'',
                      req_user = js ''some transcript'', req_json_object = False\<rparr>])
   \<and> generateTLDRAndChapters
         \<lparr>openai_create = (\<lambda>r. Inr (Some [])),
          groq_fetch = (\<lambda>k r. Inr \<lparr>resp_ok = False, resp_status = 503,
                                    resp_content = Inr None\<rparr>),
          groqApiKey = js ''gsk'', JSON_parse = (\<lambda>s. None),
          getSystemPrompt = (\<lambda>l. js ''system''), buildPrompt = (\<lambda>t l. t)\<rparr>
         (js ''some transcript'') (js ''es'') (js ''gpt-4o'') []
     = (Inl (JsError (js ''Error'') (js ''All LLM providers failed'')),
        [OpenAI_call \<lparr>req_model = js ''gpt-4o'', req_system = js ''system'',
                      req_user = js ''some transcript'', req_json_object = True\<rparr>,
         Groq_call (js ''gsk'') \<lparr>req_model = js ''llama3-8b-8192'', req_system = js ''system'',
                      req_user = js ''some transcript'', req_json_object = False\<rparr>])
   \<and> generateTLDRAndChapters
         \<lparr>openai_create = (\<lambda>r. Inr None),
          groq_fetch = (\<lambda>k r. Inr \<lparr>resp_ok = True, resp_status = 200,
                                    resp_content = Inr (Some (js ''Resumen: hi''))\<rparr>),
          groqApiKey = [], JSON_parse = (\<lambda>s. None),
          getSystemPrompt = (\<lambda>l. js ''system''), buildPrompt = (\<lambda>t l. t)\<rparr>
         (js ''some transcript'') (js ''es'') (js ''gpt-4o'') []
     = (Inl (JsError (js ''Error'') (js ''All LLM providers failed'')),
        [OpenAI_call \<lparr>req_model = js ''gpt-4o'', req_system = js ''system'',
                      req_user = js ''some transcript'', req_json_object = True\<rparr>])"
  using generateTLDRAndChapters_fallback
    [where env = "\<lparr>openai_create = (\<lambda>r. Inr (Some (js ''Resumen: hi''))),
          groq_fetch = (\<lambda>k r. Inl (JsError (js ''TypeError'') (js ''fetch failed''))),
          groqApiKey = js ''gsk'', JSON_parse = (\<lambda>s. None),
          getSystemPrompt = (\<lambda>l. js ''system''), buildPrompt = (\<lambda>t l. t)\<rparr>"
       and transcriptText = "js ''some transcript''" and language = "js ''es''"
       and model = "js ''gpt-4o''" and calls = "[]" and content = "js ''Resumen: hi''"]
    generateTLDRAndChapters_fallback
    [where env = "\<lparr>openai_create = (\<lambda>r. Inl (JsError (js ''APIError'') (js ''429''))),
          groq_fetch = (\<lambda>k r. Inr \<lparr>resp_ok = True, resp_status = 200,
                                    resp_content = Inr (Some (js ''Resumen: hi''))\<rparr>),
          groqApiKey = js ''gsk'', JSON_parse = (\<lambda>s. None),
          getSystemPrompt = (\<lambda>l. js ''system''), buildPrompt = (\<lambda>t l. t)\<rparr>"
       and transcriptText = "js ''some transcript''" and language = "js ''es''"
       and model = "js ''gpt-4o''" and calls = "[]"
       and response = "\<lparr>resp_ok = True, resp_status = 200,
                                    resp_content = Inr (Some (js ''Resumen: hi''))\<rparr>"
       and groqContent = "js ''Resumen: hi''"]
    generateTLDRAndChapters_fallback
    [where env = "\<lparr>openai_create = (\<lambda>r. Inr (Some [])),
          groq_fetch = (\<lambda>k r. Inr \<lparr>resp_ok = False, resp_status = 503,
                                    resp_content = Inr None\<rparr>),
          groqApiKey = js ''gsk'', JSON_parse = (\<lambda>s. None),
          getSystemPrompt = (\<lambda>l. js ''system''), buildPrompt = (\<lambda>t l. t)\<rparr>"
       and transcriptText = "js ''some transcript''" and language = "js ''es''"
       and model = "js ''gpt-4o''" and calls = "[]"]
    generateTLDRAndChapters_fallback
    [where env = "\<lparr>openai_create = (\<lambda>r. Inr None),
          groq_fetch = (\<lambda>k r. Inr \<lparr>resp_ok = True, resp_status = 200,
                                    resp_content = Inr (Some (js ''Resumen: hi''))\<rparr>),
          groqApiKey = [], JSON_parse = (\<lambda>s. None),
          getSystemPrompt = (\<lambda>l. js ''system''), buildPrompt = (\<lambda>t l. t)\<rparr>"
       and transcriptText = "js ''some transcript''" and language = "js ''es''"
       and model = "js ''gpt-4o''" and calls = "[]"]
  by (simp add: openai_request_def groq_request_def truncated_def openai_failed_def
        groq_failed_def no_content_def parseStructuredResponse_def js_def)

text \<open>
  C3 as stated fails for a malformed answer of the primary provider. Here the primary
  provider answers with the text \<open>Resumen: Video about X\<close>, which is not JSON, so that
  \<open>JSON.parse\<close> throws on it, and a Groq key is configured. The engine does not fall
  back: it returns the result of the heuristic parser, and the request to the primary
  provider is the only call made. \<open>parseStructuredResponse\<close> catches every error of its
  \<open>try\<close> block, so that \<open>callOpenAI\<close> throws only when the client throws or the content
  is missing or empty.
\<close>

theorem generateTLDRAndChapters_malformed_no_fallback:
  "generateTLDRAndChapters
         \<lparr>openai_create = (\<lambda>r. Inr (Some (js ''Resumen: Video about X''))),
          groq_fetch = (\<lambda>k r. Inr \<lparr>resp_ok = True, resp_status = 200,
                                    resp_content = Inr (Some (js ''Resumen: hi''))\<rparr>),
          groqApiKey = js ''gsk'', JSON_parse = (\<lambda>s. None),
          getSystemPrompt = (\<lambda>l. js ''system''), buildPrompt = (\<lambda>t l. t)\<rparr>
         (js ''some transcript'') (js ''es'') (js ''gpt-4o'') []
     = (Inr \<lparr>tldr = js ''Video about X'', chapters = []\<rparr>,
        [OpenAI_call \<lparr>req_model = js ''gpt-4o'', req_system = js ''system'',
                      req_user = js ''some transcript'', req_json_object = True\<rparr>])"
proof -
  have l: "response_lines (js ''Resumen: Video about X'') = [js ''Resumen: Video about X'']"
    by (simp add: response_lines_def rx_eval)
  have ne: "js ''Video about X'' \<noteq> []" "js ''Resumen: Video about X'' \<noteq> []"
    by (simp_all add: js_def)
  have p: "parseUnstructuredResponse (js ''Resumen: Video about X'')
      = \<lparr>tldr = js ''Video about X'', chapters = []\<rparr>"
    unfolding parseUnstructuredResponse_def Let_def l
    by (simp add: scan_lines_Cons scan_lines_Nil scan_line_resumen ne)
  have t: "truncated (js ''some transcript'') = js ''some transcript''"
    by (simp add: truncated_def js_def)
  have m: "js ''gpt-4o'' \<noteq> js ''gpt-5''"
    by (simp add: js_def)
  show ?thesis
    unfolding generateTLDRAndChapters_unfold t
    by (simp add: callOpenAI_def chat_completions_create_def openai_request_def
          parseStructuredResponse_def p ne m)
qed

section \<open>Properties of extractVideoId\<close>

lemmas url_eval = URL_plain_def plain_host_def query_pairs_def isLowerAlnum_def Let_def


lemma URL_plain_examples:
  "URL_plain (js ''https://youtu.be/dQw4w9WgXcQ'')
     = Some \<lparr>hostname = js ''youtu.be'', pathname = js ''/dQw4w9WgXcQ'', searchParams = []\<rparr>"
  "URL_plain (js ''https://www.youtube.com/watch?v=dQw4w9WgXcQ'')
     = Some \<lparr>hostname = js ''www.youtube.com'', pathname = js ''/watch'',
             searchParams = [(js ''v'', js ''dQw4w9WgXcQ'')]\<rparr>"
  "URL_plain (js ''https://example.com/x'')
     = Some \<lparr>hostname = js ''example.com'', pathname = js ''/x'', searchParams = []\<rparr>"
  "URL_plain (js ''https://youtu.be/'')
     = Some \<lparr>hostname = js ''youtu.be'', pathname = js ''/'', searchParams = []\<rparr>"
  "URL_plain (js ''https://www.youtube.com/watch?v='')
     = Some \<lparr>hostname = js ''www.youtube.com'', pathname = js ''/watch'',
             searchParams = [(js ''v'', [])]\<rparr>"
  "URL_plain (js ''https://youtu.be/abc/def'')
     = Some \<lparr>hostname = js ''youtu.be'', pathname = js ''/abc/def'', searchParams = []\<rparr>"
  "URL_plain (js ''https://notyoutube.com/watch?v=abc'')
     = Some \<lparr>hostname = js ''notyoutube.com'', pathname = js ''/watch'',
             searchParams = [(js ''v'', js ''abc'')]\<rparr>"
  "URL_plain (js ''https://www.youtube.com/watch'')
     = Some \<lparr>hostname = js ''www.youtube.com'', pathname = js ''/watch'', searchParams = []\<rparr>"
  "URL_plain (js ''not a url'') = None"
  by (simp_all add: url_eval rx_eval)

lemma hostname_tests:
  "js ''www.youtube.com'' \<noteq> js ''youtu.be''"
  "js ''example.com'' \<noteq> js ''youtu.be''"
  "js ''notyoutube.com'' \<noteq> js ''youtu.be''"
  "str_includes (js ''www.youtube.com'') (js ''youtube.com'')"
  "str_includes (js ''notyoutube.com'') (js ''youtube.com'')"
  "\<not> str_includes (js ''example.com'') (js ''youtube.com'')"
  by (simp_all add: js_def)

text \<open>
  C2, as the code has it. \<open>extractVideoId\<close> returns an identifier exactly when the URL
  parses and either its host name is \<open>youtu.be\<close>, the identifier then being the path
  without its first code unit (the leading slash), or its host name contains
  \<open>youtube.com\<close> and the query has a parameter \<open>v\<close>, the identifier then being its
  first value; it returns \<open>null\<close> exactly when the URL does not parse or the host name is
  not \<open>youtu.be\<close> and does not contain \<open>youtube.com\<close> or the query has no \<open>v\<close>. The
  three examples of the claim hold.
\<close>

theorem extractVideoId_cases:
  "(extractVideoId new_URL url = Some videoId \<longleftrightarrow>
      (\<exists>urlObj. new_URL url = Some urlObj \<and>
         ((hostname urlObj = js ''youtu.be'' \<and> videoId = drop 1 (pathname urlObj)) \<or>
          (hostname urlObj \<noteq> js ''youtu.be''
           \<and> str_includes (hostname urlObj) (js ''youtube.com'')
           \<and> map_of (searchParams urlObj) (js ''v'') = Some videoId))))
   \<and> (extractVideoId new_URL url = None \<longleftrightarrow>
      (new_URL url = None \<or>
       (\<exists>urlObj. new_URL url = Some urlObj \<and> hostname urlObj \<noteq> js ''youtu.be''
          \<and> (map_of (searchParams urlObj) (js ''v'') = None
               \<or> \<not> str_includes (hostname urlObj) (js ''youtube.com'')))))
   \<and> extractVideoId URL_plain (js ''https://youtu.be/dQw4w9WgXcQ'') = Some (js ''dQw4w9WgXcQ'')
   \<and> extractVideoId URL_plain (js ''https://www.youtube.com/watch?v=dQw4w9WgXcQ'')
       = Some (js ''dQw4w9WgXcQ'')
   \<and> extractVideoId URL_plain (js ''https://example.com/x'') = None"
proof (intro conjI)
  show "extractVideoId new_URL url = Some videoId \<longleftrightarrow>
      (\<exists>urlObj. new_URL url = Some urlObj \<and>
         ((hostname urlObj = js ''youtu.be'' \<and> videoId = drop 1 (pathname urlObj)) \<or>
          (hostname urlObj \<noteq> js ''youtu.be''
           \<and> str_includes (hostname urlObj) (js ''youtube.com'')
           \<and> map_of (searchParams urlObj) (js ''v'') = Some videoId)))"
    by (cases "new_URL url") (auto simp: extractVideoId_def)
  show "extractVideoId new_URL url = None \<longleftrightarrow>
      (new_URL url = None \<or>
       (\<exists>urlObj. new_URL url = Some urlObj \<and> hostname urlObj \<noteq> js ''youtu.be''
          \<and> (map_of (searchParams urlObj) (js ''v'') = None
               \<or> \<not> str_includes (hostname urlObj) (js ''youtube.com''))))"
    by (cases "new_URL url") (auto simp: extractVideoId_def)
  show "extractVideoId URL_plain (js ''https://youtu.be/dQw4w9WgXcQ'') = Some (js ''dQw4w9WgXcQ'')"
    by (simp add: extractVideoId_def URL_plain_examples) (simp add: js_def)
  show "extractVideoId URL_plain (js ''https://www.youtube.com/watch?v=dQw4w9WgXcQ'')
       = Some (js ''dQw4w9WgXcQ'')"
    by (simp add: extractVideoId_def URL_plain_examples hostname_tests)
  show "extractVideoId URL_plain (js ''https://example.com/x'') = None"
    by (simp add: extractVideoId_def URL_plain_examples hostname_tests)
qed

theorem extractVideoId_cases_witness:
  "extractVideoId URL_plain (js ''https://www.youtube.com/watch'') = None
   \<and> extractVideoId URL_plain (js ''not a url'') = None"
  using extractVideoId_cases[where new_URL = URL_plain and url = "js ''https://www.youtube.com/watch''"]
    extractVideoId_cases[where new_URL = URL_plain and url = "js ''not a url''"]
  by (simp add: URL_plain_examples hostname_tests)

text \<open>
  C2 as stated fails on two points: the identifier of a short-host URL is the whole path
  after the slash, not its first segment (\<open>https://youtu.be/abc/def\<close> gives
  \<open>abc/def\<close>), and a host that merely contains \<open>youtube.com\<close> is accepted
  (\<open>https://notyoutube.com/watch?v=abc\<close> gives \<open>abc\<close>).
\<close>

theorem extractVideoId_not_as_claimed:
  "extractVideoId URL_plain (js ''https://youtu.be/abc/def'') = Some (js ''abc/def'')
   \<and> extractVideoId URL_plain (js ''https://notyoutube.com/watch?v=abc'') = Some (js ''abc'')"
  by (simp add: extractVideoId_def URL_plain_examples hostname_tests) (simp add: js_def)

text \<open>
  C9. For a \<open>youtu.be\<close> URL whose path is \<open>/\<close>, and for a URL whose host contains
  \<open>youtube.com\<close> and whose parameter \<open>v\<close> is empty, \<open>extractVideoId\<close> returns the empty
  string, not \<open>null\<close>, and \<open>isValidYouTubeUrl\<close> is true.
\<close>

theorem extractVideoId_empty_identifier:
  "(new_URL url = Some urlObj \<and> hostname urlObj = js ''youtu.be'' \<and> pathname urlObj = js ''/''
      \<longrightarrow> extractVideoId new_URL url = Some [] \<and> isValidYouTubeUrl new_URL url)
   \<and> (new_URL url = Some urlObj \<and> hostname urlObj \<noteq> js ''youtu.be''
       \<and> str_includes (hostname urlObj) (js ''youtube.com'')
       \<and> map_of (searchParams urlObj) (js ''v'') = Some []
      \<longrightarrow> extractVideoId new_URL url = Some [] \<and> isValidYouTubeUrl new_URL url)"
  by (auto simp: extractVideoId_def isValidYouTubeUrl_def js_def)

theorem extractVideoId_empty_identifier_witness:
  "extractVideoId URL_plain (js ''https://youtu.be/'') = Some []
   \<and> isValidYouTubeUrl URL_plain (js ''https://youtu.be/'')
   \<and> extractVideoId URL_plain (js ''https://www.youtube.com/watch?v='') = Some []
   \<and> isValidYouTubeUrl URL_plain (js ''https://www.youtube.com/watch?v='')"
  using extractVideoId_empty_identifier
      [where new_URL = URL_plain and url = "js ''https://youtu.be/''"
         and urlObj = "\<lparr>hostname = js ''youtu.be'', pathname = js ''/'', searchParams = []\<rparr>"]
    extractVideoId_empty_identifier
      [where new_URL = URL_plain and url = "js ''https://www.youtube.com/watch?v=''"
         and urlObj = "\<lparr>hostname = js ''www.youtube.com'', pathname = js ''/watch'',
             searchParams = [(js ''v'', [])]\<rparr>"]
  by (simp add: URL_plain_examples hostname_tests)

section \<open>Properties of decodeXMLEntities\<close>



lemma rx_replace_all_other:
  "c \<noteq> p0 \<Longrightarrow>
   rx_replace_all (Lit (p0 # p) # rs) f 0 (c # s) = c # rx_replace_all (Lit (p0 # p) # rs) f 0 s"
  by simp





lemma fromCharCode_65: "fromCharCode (parseInt (js ''65'') (Some 10)) = 65"
  by (simp add: num_eval rx_eval)
lemma decodeXMLEntities_numeric: "decodeXMLEntities (js ''&#65;'') = js ''A''"
  unfolding decodeXMLEntities_def replace_entity_def replace_numeric_def
  apply (simp add: rx_eval isHexDigit_def)
  apply (simp add: fromCharCode_65[unfolded js_def, simplified])
  done


section \<open>Properties of parseTranscriptXML\<close>

lemmas cap_eval = text_rx_def start_rx_def dur_rx_def content_rx_def capture1_def textRegex_def

lemma textRegex_sample: "rx_all textRegex 0 sample_xml = [[js ''<text'', js '' '', js ''start='' @ [34], js ''1.5'', [34], js '' '',
     js ''dur='' @ [34], js ''2'', [34], [], js ''>'', js ''Hi &amp;amp; bye'', js ''</text>'']]"
  by (simp add: sample_xml_def cap_eval rx_eval)

lemma text_rx_no_text_element: "rx_all text_rx 0 (js ''<transcript></transcript>'') = []"
  by (simp add: cap_eval rx_eval)

lemma first_down_Some:
  "first_down f lo n = Some r \<Longrightarrow> \<exists>m. lo \<le> m \<and> m \<le> n \<and> f m = Some r"
proof (induction n)
  case 0
  then show ?case by (auto split: if_splits)
next
  case (Suc n)
  show ?case
  proof (cases "f (Suc n)")
    case None
    with Suc.prems have "first_down f lo n = Some r" by (auto split: if_splits)
    from Suc.IH[OF this] show ?thesis by (meson le_Suc_eq)
  next
    case (Some y)
    with Suc.prems have "\<not> Suc n < lo" "y = r" by (auto split: if_splits)
    with Some show ?thesis by (intro exI[of _ "Suc n"]) simp
  qed
qed

lemma rx_match_length: "rx_match rs s = Some ps \<Longrightarrow> length ps = length rs"
proof (induction rs s arbitrary: ps rule: rx_match.induct)
  case (1 s)
  then show ?case by simp
next
  case (2 l rs s)
  then show ?case by (auto split: if_splits)
next
  case (3 p lo hi rs s)
  from "3.prems" obtain m where
    "map_option (\<lambda>ps. take m s # ps) (rx_match rs (drop m s)) = Some ps"
    by (auto dest: first_down_Some)
  then obtain ps' where "rx_match rs (drop m s) = Some ps'" "ps = take m s # ps'"
    by auto
  with "3.IH" show ?case by simp
next
  case (4 g rs s)
  show ?case
  proof (cases "rx_match (g @ rs) s")
    case None
    with "4.prems" obtain ps' where "rx_match rs s = Some ps'" "ps = [] # ps'" by auto
    with "4.IH"(2) None show ?thesis by simp
  next
    case (Some ps')
    with "4.prems" have ps: "ps = concat (take (length g) ps') # drop (length g) ps'" by simp
    from "4.IH"(1)[OF Some] have "length ps' = length g + length rs" by simp
    with ps show ?thesis by simp
  qed
next
  case (5 rs s)
  then show ?case by (auto split: if_splits)
qed

lemma rx_all_no_first:
  "list_all (\<lambda>c. c \<noteq> p0) s \<Longrightarrow> rx_all (Lit (p0 # p) # rs) k s = []"
  by (induction s arbitrary: k) auto


lemma parseTranscriptXML_v2_sample: "parseTranscriptXML_v2 (\<lambda>s. length s) (+) sample_xml
     = Inr \<lparr>tr_text = js ''Hi &amp; bye'', tr_segments = [\<lparr>seg_start = 3, seg_end = 4, seg_text = js ''Hi &amp; bye''\<rparr>], tr_reason = None\<rparr>"
  unfolding parseTranscriptXML_v2_def textRegex_sample Let_def
  apply (simp add: decodeXMLEntities_def replace_entity_def replace_numeric_def rx_eval isHexDigit_def)
  done


text \<open>
  C6, as the code has it. When no \<open>text\<close> element matches, \<open>parseTranscriptXML\<close> of
  youtube.ts returns the empty result (empty text, no segments), and
  \<open>parseTranscriptXML\<close> of the second service throws
  \<open>Error("No segments found in XML transcript")\<close>; the second service throws in no other
  case. A payload without \<open><\<close> is one where nothing matches.
\<close>

theorem parseTranscriptXML_no_match:
  "(rx_all text_rx 0 xml = []
      \<longrightarrow> parseTranscriptXML parseFloat add xml
          = \<lparr>tr_text = [], tr_segments = [], tr_reason = None\<rparr>)
   \<and> (rx_all textRegex 0 xml = []
      \<longrightarrow> parseTranscriptXML_v2 parseFloat add xml
          = Inl (JsError (js ''Error'') (js ''No segments found in XML transcript'')))
   \<and> (rx_all textRegex 0 xml \<noteq> []
      \<longrightarrow> (\<exists>result. parseTranscriptXML_v2 parseFloat add xml = Inr result))
   \<and> (list_all (\<lambda>c. c \<noteq> 60) xml
      \<longrightarrow> rx_all text_rx 0 xml = [] \<and> rx_all textRegex 0 xml = [])"
proof (intro conjI impI)
  assume "rx_all text_rx 0 xml = []"
  then show "parseTranscriptXML parseFloat add xml
      = \<lparr>tr_text = [], tr_segments = [], tr_reason = None\<rparr>"
    by (simp add: parseTranscriptXML_def)
next
  assume "rx_all textRegex 0 xml = []"
  then show "parseTranscriptXML_v2 parseFloat add xml
      = Inl (JsError (js ''Error'') (js ''No segments found in XML transcript''))"
    by (simp add: parseTranscriptXML_v2_def new_Error_def)
next
  assume "rx_all textRegex 0 xml \<noteq> []"
  then show "\<exists>result. parseTranscriptXML_v2 parseFloat add xml = Inr result"
    by (simp add: parseTranscriptXML_v2_def Let_def)
next
  assume a: "list_all (\<lambda>c. c \<noteq> 60) xml"
  have l: "js ''<text'' = 60 # js ''text''" by (simp add: js_def)
  show "rx_all text_rx 0 xml = []"
    unfolding text_rx_def l using a by (rule rx_all_no_first)
next
  assume a: "list_all (\<lambda>c. c \<noteq> 60) xml"
  have l: "js ''<text'' = 60 # js ''text''" by (simp add: js_def)
  show "rx_all textRegex 0 xml = []"
    unfolding textRegex_def l using a by (rule rx_all_no_first)
qed

theorem parseTranscriptXML_no_match_witness:
  "parseTranscriptXML (\<lambda>s. 0 :: nat) (+) (js ''No captions here'')
     = \<lparr>tr_text = [], tr_segments = [], tr_reason = None\<rparr>
   \<and> parseTranscriptXML_v2 (\<lambda>s. 0 :: nat) (+) (js ''No captions here'')
     = Inl (JsError (js ''Error'') (js ''No segments found in XML transcript''))
   \<and> (\<exists>result. parseTranscriptXML_v2 (\<lambda>s. 0 :: nat) (+) sample_xml = Inr result)"
proof -
  note plain = parseTranscriptXML_no_match[where xml = "js ''No captions here''"
          and parseFloat = "\<lambda>s. 0 :: nat" and add = "(+)"]
  note sample = parseTranscriptXML_no_match[where xml = sample_xml
          and parseFloat = "\<lambda>s. 0 :: nat" and add = "(+)"]
  have h: "list_all (\<lambda>c. c \<noteq> 60) (js ''No captions here'')"
    by (simp add: js_def)
  have none: "rx_all text_rx 0 (js ''No captions here'') = []"
    "rx_all textRegex 0 (js ''No captions here'') = []"
    using plain h by blast+
  have some: "rx_all textRegex 0 sample_xml \<noteq> []"
    by (simp add: textRegex_sample)
  show ?thesis
    using plain sample none some by blast
qed

text \<open>
  C6 as stated fails in youtube.ts: for the payload \<open><transcript></transcript>\<close>, in
  which no \<open>text\<close> element matches, \<open>parseTranscriptXML\<close> returns the empty result
  instead of failing (\<^verbatim>\<open>if (!textMatches) { return { text: '', segments: [] }; }\<close>).
\<close>

theorem parseTranscriptXML_returns_empty_result:
  "parseTranscriptXML (\<lambda>s. 0 :: nat) (+) (js ''<transcript></transcript>'')
     = \<lparr>tr_text = [], tr_segments = [], tr_reason = None\<rparr>"
  by (simp add: parseTranscriptXML_def text_rx_no_text_element)

section \<open>Properties of normalizeTimestamp\<close>

subsection \<open>decimal\<close>

lemma decimal_digits: "list_all isDigit (decimal n)"
proof (induction n rule: decimal.induct)
  case (1 n)
  show ?case
  proof (cases "n < 10")
    case True
    then show ?thesis by (subst decimal.simps) (simp add: isDigit_def)
  next
    case False
    then have "list_all isDigit (decimal (n div 10))" using 1 by simp
    moreover have "isDigit (48 + n mod 10)" by (simp add: isDigit_def)
    ultimately show ?thesis using False by (subst decimal.simps) simp
  qed
qed

lemma decimal_nonempty: "decimal n \<noteq> []"
  by (subst decimal.simps) simp

lemma radix_value_snoc:
  "radix_value R (xs @ [c])
     = radix_value R xs * R + (case digit_value c of Some d \<Rightarrow> d | None \<Rightarrow> 0)"
  by (simp add: radix_value_def)

lemma radix_value_single:
  "radix_value R [c] = (case digit_value c of Some d \<Rightarrow> d | None \<Rightarrow> 0)"
  by (simp add: radix_value_def)

lemma digit_value_digit: "d < 10 \<Longrightarrow> digit_value (48 + d) = Some d"
  by (simp add: digit_value_def)

lemma radix_value_decimal: "radix_value 10 (decimal n) = n"
proof (induction n rule: decimal.induct)
  case (1 n)
  show ?case
  proof (cases "n < 10")
    case True
    then show ?thesis
      by (subst decimal.simps) (simp add: radix_value_single digit_value_digit)
  next
    case False
    then have "radix_value 10 (decimal (n div 10)) = n div 10" using 1 by simp
    then show ?thesis
      using False
      by (subst decimal.simps) (simp add: radix_value_snoc digit_value_digit)
  qed
qed

lemma radix_value_leading_zero: "radix_value R (48 # ds) = radix_value R ds"
  by (simp add: radix_value_def digit_value_def)

lemma decimal_bound: "n < 10 ^ length (decimal n)"
proof (induction n rule: decimal.induct)
  case (1 n)
  show ?case
  proof (cases "n < 10")
    case True
    then show ?thesis by (subst decimal.simps) simp
  next
    case False
    then have "n div 10 < 10 ^ length (decimal (n div 10))" using 1 by simp
    then have "n < 10 * 10 ^ length (decimal (n div 10))"
      by (simp add: div_less_iff_less_mult mult.commute)
    then show ?thesis using False by (subst decimal.simps) simp
  qed
qed

lemma decimal_length_le: "0 < k \<Longrightarrow> n < 10 ^ k \<Longrightarrow> length (decimal n) \<le> k"
proof (induction n arbitrary: k rule: decimal.induct)
  case (1 n)
  show ?case
  proof (cases "n < 10")
    case True
    then show ?thesis using "1.prems" by (subst decimal.simps) simp
  next
    case False
    obtain j where k: "k = Suc j" using "1.prems"(1) by (cases k) auto
    have "j \<noteq> 0" using False "1.prems"(2) k by (cases j) auto
    moreover have "n div 10 < 10 ^ j"
      using "1.prems"(2) k by (simp add: div_less_iff_less_mult mult.commute)
    ultimately have "length (decimal (n div 10)) \<le> j"
      using "1.IH"[of j] False by simp
    then show ?thesis using False k by (subst decimal.simps) simp
  qed
qed

subsection \<open>bit_length and to_double\<close>

lemma bit_length_unique: "2 ^ k \<le> n \<Longrightarrow> n < 2 ^ Suc k \<Longrightarrow> bit_length n = Suc k"
proof (induction k arbitrary: n)
  case 0
  then have "n = 1" by simp
  then show ?case by (simp add: bit_length.simps)
next
  case (Suc k)
  have "2 ^ k \<le> n div 2" using Suc.prems(1) by simp
  moreover have "n div 2 < 2 ^ Suc k" using Suc.prems(2) by simp
  ultimately have "bit_length (n div 2) = Suc k" by (rule Suc.IH)
  moreover have "n \<noteq> 0"
  proof
    assume "n = 0"
    then have "(2::nat) ^ Suc k \<le> 0" using Suc.prems(1) by simp
    then show False by simp
  qed
  ultimately show ?case by (subst bit_length.simps) simp
qed

lemma bit_length_bounds: "n \<noteq> 0 \<Longrightarrow> 2 ^ (bit_length n - 1) \<le> n \<and> n < 2 ^ bit_length n"
proof (induction n rule: bit_length.induct)
  case (1 n)
  show ?case
  proof (cases "n div 2 = 0")
    case True
    then have "n = 1" using "1.prems" by (cases "n = 1") auto
    then show ?thesis by (simp add: bit_length.simps)
  next
    case False
    then have ih: "2 ^ (bit_length (n div 2) - 1) \<le> n div 2 \<and> n div 2 < 2 ^ bit_length (n div 2)"
      using 1 by simp
    have pos: "bit_length (n div 2) \<noteq> 0" using False by (subst bit_length.simps) simp
    have bl: "bit_length n = Suc (bit_length (n div 2))"
      using "1.prems" by (subst bit_length.simps) simp
    have "2 * (n div 2) \<le> n" by simp
    then have "2 * 2 ^ (bit_length (n div 2) - 1) \<le> n" using ih by linarith
    moreover have "2 * 2 ^ (bit_length (n div 2) - 1) = (2::nat) ^ bit_length (n div 2)"
      using pos by (cases "bit_length (n div 2)") auto
    moreover have "n < 2 * 2 ^ bit_length (n div 2)"
      using ih by (simp add: div_less_iff_less_mult mult.commute)
    ultimately show ?thesis by (simp add: bl)
  qed
qed


lemma to_double_small: "m < 2 ^ 53 \<Longrightarrow> to_double m = Some m"
  by (simp add: to_double_def)

lemma to_double_exact:
  assumes q: "2 ^ 52 \<le> q" "q \<le> 2 ^ 53" and fin: "q * 2 ^ e < 2 ^ 1024" and e: "0 < e"
  shows "to_double (q * 2 ^ e) = Some (q * 2 ^ e)"
proof -
  let ?m = "q * 2 ^ e"
  have big: "\<not> ?m < 2 ^ 53"
  proof -
    have p: "(2::nat) ^ 1 \<le> 2 ^ e" using e by (intro power_increasing) simp_all
    have "(2::nat) ^ 53 = 2 ^ 52 * 2 ^ 1" by simp
    also have "\<dots> \<le> q * 2 ^ e" by (rule mult_le_mono[OF q(1) p])
    finally show ?thesis by simp
  qed
  show ?thesis
  proof (cases "q = 2 ^ 53")
    case False
    then have lt: "q < 2 ^ 53" using q(2) by simp
    have "2 ^ (52 + e) \<le> ?m" using q(1) by (simp add: power_add)
    moreover have "?m < 2 ^ Suc (52 + e)" using lt by (simp add: power_add)
    ultimately have bl: "bit_length ?m = Suc (52 + e)" by (rule bit_length_unique)
    have ex: "bit_length ?m - 53 = e" by (simp add: bl)
    show ?thesis
      unfolding to_double_def ex Let_def using big fin by simp
  next
    case True
    have m: "?m = 2 ^ (53 + e)" by (simp add: True power_add)
    have "(2::nat) ^ (53 + e) \<le> ?m" by (simp add: m)
    moreover have "?m < 2 ^ Suc (53 + e)" by (simp add: m)
    ultimately have bl: "bit_length ?m = Suc (53 + e)" by (rule bit_length_unique)
    have ex: "bit_length ?m - 53 = Suc e" by (simp add: bl)
    have split: "?m = 2 ^ 52 * 2 ^ Suc e" by (simp add: True power_add)
    have d: "?m div 2 ^ Suc e = 2 ^ 52" unfolding split by simp
    have r: "?m mod 2 ^ Suc e = 0" unfolding split by simp
    show ?thesis
      unfolding to_double_def ex Let_def d r using big fin
      by (simp add: True power_add)
  qed
qed

lemma to_double_idem:
  assumes "to_double M = Some m"
  shows "to_double m = Some m"
proof (cases "M < 2 ^ 53")
  case True
  with assms show ?thesis by (simp add: to_double_def)
next
  case False
  define e where "e = bit_length M - 53"
  define q where "q = M div 2 ^ e"
  define r where "r = M mod 2 ^ e"
  define q' where "q' = (if 2 ^ e < 2 * r \<or> (2 * r = 2 ^ e \<and> odd q) then q + 1 else q)"
  have M0: "M \<noteq> 0" using False by auto
  from bit_length_bounds[OF M0]
  have lo: "2 ^ (bit_length M - 1) \<le> M" and hi: "M < 2 ^ bit_length M" by simp_all
  have b54: "53 < bit_length M"
  proof (rule ccontr)
    assume "\<not> 53 < bit_length M"
    then have "bit_length M \<le> 53" by simp
    then have "(2::nat) ^ bit_length M \<le> 2 ^ 53" by (rule power_increasing) simp
    with hi False show False by simp
  qed
  then have e_pos: "0 < e" and bl: "bit_length M = 53 + e" "bit_length M - 1 = 52 + e"
    by (simp_all add: e_def)
  have "q < 2 ^ 53"
    unfolding q_def using hi by (simp add: bl power_add less_mult_imp_div_less)
  moreover have "2 ^ 52 \<le> q"
    unfolding q_def using lo by (simp add: bl power_add less_eq_div_iff_mult_less_eq)
  ultimately have q': "2 ^ 52 \<le> q'" "q' \<le> 2 ^ 53" by (simp_all add: q'_def)
  from assms False have res: "\<not> 2 ^ 1024 \<le> q' * 2 ^ e" "m = q' * 2 ^ e"
    by (auto simp: to_double_def Let_def e_def q_def r_def q'_def split: if_splits)
  show ?thesis
    unfolding res(2) using q' res(1) e_pos by (intro to_double_exact) simp_all
qed


subsection \<open>shortest digits\<close>

lemma shortest_from_roundtrip:
  "to_double m = Some m \<Longrightarrow> to_double (shortest_from m d k) = Some m"
proof (induction m d k rule: shortest_from.induct)
  case (1 m d k)
  show ?case
    using 1 by (subst shortest_from.simps) (auto simp: Let_def)
qed

lemma next_multiple_le:
  fixes m p :: nat
  assumes "0 < p" "m < c * p"
  shows "(m div p) * p + p \<le> c * p"
proof -
  have "m div p < c" using assms by (simp add: less_mult_imp_div_less)
  then have "m div p + 1 \<le> c" by simp
  then have "(m div p + 1) * p \<le> c * p" by (rule mult_le_mono1)
  then show ?thesis by (simp add: algebra_simps)
qed

lemma shortest_from_le: "m < 10 ^ d \<Longrightarrow> shortest_from m d k \<le> 10 ^ d"
proof (induction m d k rule: shortest_from.induct)
  case (1 m d k)
  show ?case
  proof (cases "d \<le> k")
    case True
    then show ?thesis using "1.prems" by (subst shortest_from.simps) simp
  next
    case False
    let ?p = "(10::nat) ^ (d - k)"
    have lo: "(m div ?p) * ?p \<le> 10 ^ d"
    proof -
      have "(m div ?p) * ?p \<le> m" by simp
      then show ?thesis using "1.prems" by linarith
    qed
    have split: "(10::nat) ^ d = 10 ^ k * ?p"
      using False by (simp flip: power_add)
    have "m < 10 ^ k * ?p" using "1.prems" split by simp
    then have hi: "(m div ?p) * ?p + ?p \<le> 10 ^ d"
      unfolding split by (intro next_multiple_le) simp_all
    have ih: "shortest_from m d (k + 1) \<le> 10 ^ d"
      if "\<not> (to_double ((m div ?p) * ?p) = Some m \<and> to_double ((m div ?p) * ?p + ?p) = Some m)"
         "to_double ((m div ?p) * ?p) \<noteq> Some m" "to_double ((m div ?p) * ?p + ?p) \<noteq> Some m"
      using "1.IH"[OF False refl refl refl that "1.prems"] .
    show ?thesis
      using False lo hi "1.prems" ih
      by (subst shortest_from.simps) (auto simp: Let_def)
  qed
qed

lemma to_double_1e21: "to_double (10 ^ 21) = Some (10 ^ 21)"
  by (simp add: to_double_def bit_length.simps Let_def)

lemma magnitude_plain:
  assumes dbl: "to_double m = Some m" and small: "m < 10 ^ 21"
  shows "\<exists>v. magnitude_toString m = decimal v \<and> to_double v = Some m"
proof (cases "m < 2 ^ 53")
  case True
  then show ?thesis using dbl by (auto simp: magnitude_toString_def)
next
  case False
  define d where "d = length (decimal m)"
  define v where "v = shortest_from m d 1"
  have d21: "d \<le> 21" unfolding d_def using small by (intro decimal_length_le) simp_all
  have "m < 10 ^ d" unfolding d_def by (rule decimal_bound)
  then have "v \<le> 10 ^ d" unfolding v_def by (rule shortest_from_le)
  also have "(10::nat) ^ d \<le> 10 ^ 21" using d21 by (intro power_increasing) simp_all
  finally have le: "v \<le> 10 ^ 21" .
  have rt: "to_double v = Some m" unfolding v_def using dbl by (rule shortest_from_roundtrip)
  have "v \<noteq> 10 ^ 21"
  proof
    assume "v = 10 ^ 21"
    then have "m = 10 ^ 21" using rt to_double_1e21 by simp
    then show False using small by simp
  qed
  then have "v < 10 ^ 21" using le by simp
  then have "length (decimal v) \<le> 21" by (intro decimal_length_le) simp_all
  then have "magnitude_toString m = decimal v"
    using False by (simp add: magnitude_toString_def Let_def v_def d_def)
  then show ?thesis using rt by blast
qed


subsection \<open>parseInt on printed numbers\<close>

lemma isRadixDigit_10: "isRadixDigit 10 c = isDigit c"
  by (auto simp: isRadixDigit_def digit_value_def isDigit_def)

lemma digit_not_space: "isDigit c \<Longrightarrow> \<not> isWhiteSpace c"
  by (auto simp: isDigit_def isWhiteSpace_def)

lemma parseInt_digits:
  assumes ne: "ds \<noteq> []" and dig: "list_all isDigit ds"
  shows "parseInt ds None =
     (case to_double (radix_value 10 ds) of
        None \<Rightarrow> Infinite False | Some m \<Rightarrow> Finite (int m))"
proof -
  obtain c cs where ds: "ds = c # cs" using ne by (cases ds) auto
  have c: "isDigit c" and cs: "list_all isDigit cs" using dig ds by simp_all
  have drop: "dropWhile isWhiteSpace ds = ds" using c ds by (simp add: digit_not_space)
  have sign: "hd ds \<noteq> 43" "hd ds \<noteq> 45" using c ds by (auto simp: isDigit_def)
  have prefix: "take 2 ds \<noteq> js ''0x''" "take 2 ds \<noteq> js ''0X''"
    using cs ds by (cases cs; auto simp: js_def isDigit_def)+
  have all: "takeWhile (isRadixDigit 10) ds = ds"
    using dig by (simp add: takeWhile_eq_all_conv isRadixDigit_10 list_all_iff)
  show ?thesis
    unfolding parseInt_def Let_def drop
    using sign prefix ne by (simp add: all split: option.splits)
qed

lemma parseInt_minus_digits:
  assumes ne: "ds \<noteq> []" and dig: "list_all isDigit ds"
  shows "parseInt (45 # ds) None =
     (case to_double (radix_value 10 ds) of
        None \<Rightarrow> Infinite True | Some m \<Rightarrow> Finite (- int m))"
proof -
  obtain c cs where ds: "ds = c # cs" using ne by (cases ds) auto
  have c: "isDigit c" and cs: "list_all isDigit cs" using dig ds by simp_all
  have drop: "dropWhile isWhiteSpace (45 # ds) = 45 # ds" by (simp add: isWhiteSpace_def)
  have prefix: "take 2 ds \<noteq> js ''0x''" "take 2 ds \<noteq> js ''0X''"
    using cs ds by (cases cs; auto simp: js_def isDigit_def)+
  have all: "takeWhile (isRadixDigit 10) ds = ds"
    using dig by (simp add: takeWhile_eq_all_conv isRadixDigit_10 list_all_iff)
  show ?thesis
    unfolding parseInt_def Let_def drop
    using prefix ne by (simp add: all split: option.splits)
qed

lemma parseInt_NaN: "parseInt (js ''NaN'') None = NaN"
  by (simp add: parseInt_def Let_def js_def isWhiteSpace_def isRadixDigit_def digit_value_def)

lemma parseInt_Finite_double:
  assumes "parseInt s radix = Finite i"
  shows "to_double (nat \<bar>i\<bar>) = Some (nat \<bar>i\<bar>)"
proof -
  from assms obtain M m where "to_double M = Some m" "\<bar>i\<bar> = int m"
    by (auto simp: parseInt_def Let_def split: if_splits option.splits)
  then show ?thesis using to_double_idem[of M m] by simp
qed

lemma padded_shape:
  assumes "prints_plain (parseInt part None)"
  shows "58 \<notin> set (padded part) \<and> parseInt (padded part) None = parseInt part None"
proof (cases "parseInt part None")
  case NaN
  have "padded part = js ''NaN''" by (simp add: padded_def NaN padStart2_def js_def)
  then show ?thesis using NaN parseInt_NaN by (simp add: js_def)
next
  case (Infinite negative)
  then show ?thesis using assms by (simp add: prints_plain_def)
next
  case (Finite i)
  define m where "m = nat \<bar>i\<bar>"
  have dbl: "to_double m = Some m" unfolding m_def using Finite by (rule parseInt_Finite_double)
  have small: "m < 10 ^ 21" using assms Finite by (simp add: prints_plain_def m_def)
  from magnitude_plain[OF dbl small] obtain v
    where v: "magnitude_toString m = decimal v" "to_double v = Some m" by blast
  have dig: "list_all isDigit (decimal v)" by (rule decimal_digits)
  then have no_colon: "58 \<notin> set (decimal v)" by (auto simp: list_all_iff isDigit_def)
  show ?thesis
  proof (cases "i < 0")
    case True
    then have m: "nat (- i) = m" "- int m = i" by (simp_all add: m_def)
    have "2 \<le> length (45 # decimal v)" using decimal_nonempty[of v] by (cases "decimal v") auto
    then have p: "padded part = 45 # decimal v"
      using True by (simp add: padded_def Finite padStart2_def m v)
    have "parseInt (45 # decimal v) None = Finite i"
      by (simp add: parseInt_minus_digits decimal_nonempty dig radix_value_decimal v m)
    then show ?thesis using no_colon by (simp add: p Finite)
  next
    case False
    then have m: "nat i = m" "int m = i" by (simp_all add: m_def)
    have ts: "Number_toString (parseInt part None) = decimal v"
      using False by (simp add: Finite m v)
    have p: "padded part = decimal v \<or> padded part = 48 # decimal v"
    proof (cases "2 \<le> length (decimal v)")
      case True
      then show ?thesis by (simp add: padded_def ts padStart2_def)
    next
      case False
      moreover have "length (decimal v) \<noteq> 0" using decimal_nonempty[of v] by simp
      ultimately have "length (decimal v) = 1" by linarith
      then show ?thesis by (simp add: padded_def ts padStart2_def)
    qed
    have a: "parseInt (decimal v) None = Finite i"
      by (simp add: parseInt_digits decimal_nonempty dig radix_value_decimal v m)
    have "list_all isDigit (48 # decimal v)" using dig by (simp add: isDigit_def)
    then have b: "parseInt (48 # decimal v) None = Finite i"
      by (simp add: parseInt_digits radix_value_leading_zero radix_value_decimal v m)
    show ?thesis using p a b no_colon by (auto simp: Finite)
  qed
qed

subsection \<open>split\<close>

lemma split_on_plain: "sep \<notin> set a \<Longrightarrow> split_on sep a = [a]"
  by (induction a) auto

lemma split_on_append: "sep \<notin> set a \<Longrightarrow> split_on sep (a @ sep # b) = a # split_on sep b"
  by (induction a) auto

lemma normalizeTimestamp_2:
  "split_on 58 timestamp = [p0, p1] \<Longrightarrow>
   normalizeTimestamp timestamp = padded p0 @ 58 # padded p1"
  by (simp add: normalizeTimestamp_def padded_def js_def)

lemma normalizeTimestamp_3:
  "split_on 58 timestamp = [p0, p1, p2] \<Longrightarrow>
   normalizeTimestamp timestamp = padded p0 @ 58 # padded p1 @ 58 # padded p2"
  by (simp add: normalizeTimestamp_def padded_def js_def)

lemma normalizeTimestamp_other:
  "length (split_on 58 timestamp) \<noteq> 2 \<Longrightarrow> length (split_on 58 timestamp) \<noteq> 3 \<Longrightarrow>
   normalizeTimestamp timestamp = timestamp"
  by (auto simp: normalizeTimestamp_def split: list.splits)

lemma normalizeTimestamp_idempotent:
  assumes "list_all (\<lambda>part. prints_plain (parseInt part None)) (split_on 58 timestamp)
           \<or> (length (split_on 58 timestamp) \<noteq> 2 \<and> length (split_on 58 timestamp) \<noteq> 3)"
  shows "normalizeTimestamp (normalizeTimestamp timestamp) = normalizeTimestamp timestamp"
proof -
  consider (two) p0 p1 where "split_on 58 timestamp = [p0, p1]"
    | (three) p0 p1 p2 where "split_on 58 timestamp = [p0, p1, p2]"
    | (other) "length (split_on 58 timestamp) \<noteq> 2" "length (split_on 58 timestamp) \<noteq> 3"
    by (cases "split_on 58 timestamp" rule: list.exhaust; simp)
       (metis length_0_conv length_Suc_conv numeral_2_eq_2)
  then show ?thesis
  proof cases
    case two
    then have plain: "prints_plain (parseInt p0 None)" "prints_plain (parseInt p1 None)"
      using assms by simp_all
    note s0 = padded_shape[OF plain(1)] and s1 = padded_shape[OF plain(2)]
    have n: "normalizeTimestamp timestamp = padded p0 @ 58 # padded p1"
      using two by (rule normalizeTimestamp_2)
    have "split_on 58 (padded p0 @ 58 # padded p1) = [padded p0, padded p1]"
      using s0 s1 by (simp add: split_on_append split_on_plain)
    then have "normalizeTimestamp (padded p0 @ 58 # padded p1)
        = padded (padded p0) @ 58 # padded (padded p1)"
      by (rule normalizeTimestamp_2)
    also have "\<dots> = padded p0 @ 58 # padded p1"
      using s0 s1 by (simp add: padded_def)
    finally show ?thesis by (simp add: n)
  next
    case three
    then have plain: "prints_plain (parseInt p0 None)" "prints_plain (parseInt p1 None)"
        "prints_plain (parseInt p2 None)"
      using assms by simp_all
    note s0 = padded_shape[OF plain(1)] and s1 = padded_shape[OF plain(2)]
      and s2 = padded_shape[OF plain(3)]
    have n: "normalizeTimestamp timestamp = padded p0 @ 58 # padded p1 @ 58 # padded p2"
      using three by (rule normalizeTimestamp_3)
    have "split_on 58 (padded p0 @ 58 # padded p1 @ 58 # padded p2)
        = [padded p0, padded p1, padded p2]"
      using s0 s1 s2 by (simp add: split_on_append split_on_plain)
    then have "normalizeTimestamp (padded p0 @ 58 # padded p1 @ 58 # padded p2)
        = padded (padded p0) @ 58 # padded (padded p1) @ 58 # padded (padded p2)"
      by (rule normalizeTimestamp_3)
    also have "\<dots> = padded p0 @ 58 # padded p1 @ 58 # padded p2"
      using s0 s1 s2 by (simp add: padded_def)
    finally show ?thesis by (simp add: n)
  next
    case other
    then show ?thesis by (simp add: normalizeTimestamp_other)
  qed
qed


lemma normalizeTimestamp_examples:
  "normalizeTimestamp (js ''02:05'') = js ''02:05''"
  "normalizeTimestamp (js ''2:5'') = js ''02:05''"
  "normalizeTimestamp (js ''1:2:3'') = js ''01:02:03''"
  by (simp_all add: normalizeTimestamp_def rx_eval num_eval)

text \<open>
  C8, as the code has it. \<open>normalizeTimestamp\<close> splits on \<open>:\<close>; two parts give
  \<open>MM:SS\<close> and three parts \<open>HH:MM:SS\<close>, each part parsed with \<open>parseInt\<close>, printed and
  padded with zeros to two places; any other number of parts is returned as it is. It is
  idempotent on every string whose parts parse to \<open>NaN\<close> or to integers of magnitude
  below \<open>10^21\<close>, and on every string with another number of parts. The three examples
  hold.
\<close>

theorem normalizeTimestamp_padded_idempotent:
  "(split_on 58 timestamp = [p0, p1]
      \<longrightarrow> normalizeTimestamp timestamp = padded p0 @ js '':'' @ padded p1)
   \<and> (split_on 58 timestamp = [p0, p1, p2]
      \<longrightarrow> normalizeTimestamp timestamp = padded p0 @ js '':'' @ padded p1 @ js '':'' @ padded p2)
   \<and> (length (split_on 58 timestamp) \<noteq> 2 \<and> length (split_on 58 timestamp) \<noteq> 3
      \<longrightarrow> normalizeTimestamp timestamp = timestamp)
   \<and> (list_all (\<lambda>part. prints_plain (parseInt part None)) (split_on 58 timestamp)
       \<or> (length (split_on 58 timestamp) \<noteq> 2 \<and> length (split_on 58 timestamp) \<noteq> 3)
      \<longrightarrow> normalizeTimestamp (normalizeTimestamp timestamp) = normalizeTimestamp timestamp)
   \<and> normalizeTimestamp (js ''02:05'') = js ''02:05''
   \<and> normalizeTimestamp (js ''2:5'') = js ''02:05''
   \<and> normalizeTimestamp (js ''1:2:3'') = js ''01:02:03''"
  using normalizeTimestamp_2[of timestamp p0 p1] normalizeTimestamp_3[of timestamp p0 p1 p2]
    normalizeTimestamp_other[of timestamp] normalizeTimestamp_idempotent[of timestamp]
    normalizeTimestamp_examples
  by (simp add: js_def)

theorem normalizeTimestamp_padded_idempotent_witness:
  "normalizeTimestamp (js ''2:5'') = padded (js ''2'') @ js '':'' @ padded (js ''5'')
   \<and> normalizeTimestamp (js ''1:2:3'')
       = padded (js ''1'') @ js '':'' @ padded (js ''2'') @ js '':'' @ padded (js ''3'')
   \<and> normalizeTimestamp (js ''1:2:3:4'') = js ''1:2:3:4''
   \<and> normalizeTimestamp (normalizeTimestamp (js ''2:5'')) = normalizeTimestamp (js ''2:5'')"
proof -
  have a: "split_on 58 (js ''2:5'') = [js ''2'', js ''5'']"
    and b: "split_on 58 (js ''1:2:3'') = [js ''1'', js ''2'', js ''3'']"
    and c: "length (split_on 58 (js ''1:2:3:4'')) = 4"
    by (simp_all add: js_def)
  have p: "prints_plain (parseInt (js ''2'') None)" "prints_plain (parseInt (js ''5'') None)"
    by (simp_all add: prints_plain_def num_eval rx_eval)
  show ?thesis
    using normalizeTimestamp_padded_idempotent
            [where timestamp = "js ''2:5''" and ?p0.0 = "js ''2''" and ?p1.0 = "js ''5''"]
      normalizeTimestamp_padded_idempotent
            [where timestamp = "js ''1:2:3''" and ?p0.0 = "js ''1''" and ?p1.0 = "js ''2''"
               and ?p2.0 = "js ''3''"]
      normalizeTimestamp_padded_idempotent[where timestamp = "js ''1:2:3:4''"]
    by (simp add: a b c p)
qed

text \<open>
  C8 as stated fails for a part of 22 digits or more: \<open>parseInt\<close> gives \<open>10^21\<close>, which
  prints in exponent notation, and \<open>parseInt\<close> of \<open>1e+21\<close> is 1. So
  \<open>1000000000000000000000:00\<close> normalises to \<open>1e+21:00\<close>, and that to \<open>01:00\<close>.
\<close>

lemma normalizeTimestamp_1e21:
  "normalizeTimestamp (js ''1000000000000000000000:00'') = js ''1e+21:00''"
  "normalizeTimestamp (js ''1e+21:00'') = js ''01:00''"
  by (simp_all add: normalizeTimestamp_def rx_eval num_eval)

theorem normalizeTimestamp_not_idempotent:
  "normalizeTimestamp (normalizeTimestamp (js ''1000000000000000000000:00'')) = js ''01:00''
   \<and> normalizeTimestamp (js ''1000000000000000000000:00'') = js ''1e+21:00''
   \<and> normalizeTimestamp (normalizeTimestamp (js ''1000000000000000000000:00''))
       \<noteq> normalizeTimestamp (js ''1000000000000000000000:00'')"
  by (simp add: normalizeTimestamp_1e21) (simp add: js_def)

end
